theory Spec2Isabelle
  imports Complex_Main "HOL-Library.Multiset" "HOL-Library.Log_Nat"
begin

section \<open>Sprint gadgets: the resolver functions of \<open>src/resolvers/index.js\<close>\<close>

text \<open>
  The file \<open>src/src/resolvers/index.js\<close> holds two generations of the resolver module.
  The second one (with \<open>buildSubtaskMap\<close>, the changelog based scope detection and the
  baseline repair) is embedded under the source's names; what is taken from the first
  generation carries the suffix \<open>_v1\<close>.

  Conventions of the embedding.
  \<^item> Hours and their sums are exact real numbers. Where the source compares computed
    hours with each other or rounds a quotient at a half (the health classification,
    the progress of a release), its IEEE doubles are modelled: see \<open>fl\<close>.
  \<^item> A JavaScript \<open>Date\<close> is its number of milliseconds since the epoch, an \<open>int\<close>;
    the runtime's time zone is UTC, so that \<open>setHours(0,0,0,0)\<close>, \<open>setDate(getDate()+1)\<close>
    and \<open>toISOString().split('T')[0]\<close> all work on the same calendar day, and a date
    string \<open>YYYY-MM-DD\<close> is represented by its day number (days since the epoch).
  \<^item> A field that may be \<open>null\<close> or \<open>undefined\<close> is an \<open>option\<close>.
  \<^item> An exception is the left summand of a sum type.
\<close>

subsection \<open>Constants and helper functions\<close>

definition WORKING_DAYS_DEFAULT :: nat where
  "WORKING_DAYS_DEFAULT = 10"

definition HOURS_PER_DAY :: nat where
  "HOURS_PER_DAY = 8"

definition msPerDay :: int where
  "msPerDay = 86400000"

text \<open>\<open>Date.prototype.getDay\<close>: 0 is Sunday; the first of January 1970 was a Thursday.\<close>

definition getDay :: "int \<Rightarrow> int" where
  "getDay t = (t div msPerDay + 4) mod 7"

definition isWorkingDay :: "int \<Rightarrow> bool" where
  "isWorkingDay date = (let day = getDay date in day \<noteq> 0 \<and> day \<noteq> 6)"

text \<open>\<open>d.setHours(0, 0, 0, 0)\<close> and \<open>d.toISOString().split('T')[0]\<close>.\<close>

definition setHoursZero :: "int \<Rightarrow> int" where
  "setHoursZero t = t - t mod msPerDay"

definition isoDate :: "int \<Rightarrow> int" where
  "isoDate t = t div msPerDay"

text \<open>The loop of \<open>countWorkingDays\<close>, with its counter; \<open>count || WORKING_DAYS_DEFAULT\<close> after it.\<close>

function countWorkingDaysLoop :: "int \<Rightarrow> int \<Rightarrow> nat \<Rightarrow> nat" where
  "countWorkingDaysLoop current endDate cnt =
     (if current \<le> endDate
      then countWorkingDaysLoop (current + msPerDay) endDate
             (if isWorkingDay current then cnt + 1 else cnt)
      else cnt)"
  by pat_completeness auto
termination
  by (relation "measure (\<lambda>(current, endDate, cnt). nat (endDate - current + 1))")
     (auto simp: msPerDay_def)

declare countWorkingDaysLoop.simps [simp del]

definition countWorkingDays :: "int \<Rightarrow> int \<Rightarrow> nat" where
  "countWorkingDays startDate endDate =
     (let cnt = countWorkingDaysLoop startDate endDate 0
      in if cnt = 0 then WORKING_DAYS_DEFAULT else cnt)"

text \<open>\<open>Math.round\<close> rounds half up; \<open>Math.round(x * 10) / 10\<close> keeps one decimal.\<close>

definition Math_round :: "real \<Rightarrow> int" where
  "Math_round x = \<lfloor>x + 1 / 2\<rfloor>"

definition round10 :: "real \<Rightarrow> real" where
  "round10 x = of_int (Math_round (x * 10)) / 10"

text \<open>\<open>secondsToHours\<close>: \<open>!seconds\<close> holds for \<open>null\<close>, \<open>undefined\<close> and \<open>0\<close>.\<close>

definition secondsToHours :: "int option \<Rightarrow> real" where
  "secondsToHours seconds =
     (case seconds of
        None \<Rightarrow> 0
      | Some s \<Rightarrow> if s = 0 then 0 else of_int (Math_round ((of_int s / 3600) * 10)) / 10)"

subsection \<open>Floating-point numbers\<close>

text \<open>
  A JavaScript number is an IEEE 754 double. \<open>fl x\<close> is the double nearest to the real
  \<open>x\<close>, with 53 significant bits and ties to the even significand; \<open>exponentOf y\<close> is the
  binary exponent of a positive \<open>y\<close> and \<open>ulpOf y\<close> the distance between neighbouring
  doubles at \<open>y\<close>. Hours, counts and percentages are far from the ends of the exponent
  range, so subnormal numbers and overflow are left out.
\<close>

definition roundEven :: "real \<Rightarrow> int" where
  "roundEven q =
     (let n = \<lfloor>q\<rfloor>; r = q - of_int n
      in if r < 1 / 2 then n
         else if 1 / 2 < r then n + 1
         else if even n then n else n + 1)"

definition exponentOf :: "real \<Rightarrow> int" where
  "exponentOf y =
     (if 1 \<le> y then int (floorlog 2 (nat \<lfloor>y\<rfloor>)) - 1
      else - int (floorlog 2 (nat (\<lceil>1 / y\<rceil> - 1))))"

definition pow2 :: "int \<Rightarrow> real" where
  "pow2 k = (if 0 \<le> k then 2 ^ nat k else 1 / 2 ^ nat (- k))"

definition ulpOf :: "real \<Rightarrow> real" where
  "ulpOf y = pow2 (exponentOf y - 52)"

definition fl :: "real \<Rightarrow> real" where
  "fl x =
     (if x = 0 then 0
      else sgn x * (of_int (roundEven (\<bar>x\<bar> / ulpOf \<bar>x\<bar>)) * ulpOf \<bar>x\<bar>))"


subsection \<open>Strings\<close>

text \<open>\<open>String.prototype.toLowerCase\<close> on ASCII letters, and \<open>String.prototype.includes\<close> (as \<open>includes_str\<close>).\<close>

definition toLowerChar :: "char \<Rightarrow> char" where
  "toLowerChar c =
     (case map_of (zip ''ABCDEFGHIJKLMNOPQRSTUVWXYZ'' ''abcdefghijklmnopqrstuvwxyz'') c of
        None \<Rightarrow> c
      | Some l \<Rightarrow> l)"

definition toLowerCase :: "string \<Rightarrow> string" where
  "toLowerCase s = map toLowerChar s"

fun startsWith :: "string \<Rightarrow> string \<Rightarrow> bool" where
  "startsWith s [] = True"
| "startsWith [] (p # ps) = False"
| "startsWith (c # cs) (p # ps) = (c = p \<and> startsWith cs ps)"

fun includes_str :: "string \<Rightarrow> string \<Rightarrow> bool" where
  "includes_str [] p = (p = [])"
| "includes_str (c # cs) p = (startsWith (c # cs) p \<or> includes_str cs p)"

text \<open>JavaScript truthiness of an optional string: present and not empty.\<close>

definition truthy :: "string option \<Rightarrow> bool" where
  "truthy s = (case s of None \<Rightarrow> False | Some v \<Rightarrow> v \<noteq> [])"

text \<open>\<open>s || ''\<close> for an optional string.\<close>

definition orEmpty :: "string option \<Rightarrow> string" where
  "orEmpty s = (case s of None \<Rightarrow> [] | Some v \<Rightarrow> v)"

subsection \<open>Issues\<close>

text \<open>
  The fields of a Jira issue that the resolvers read. \<open>issuetype_subtask\<close> is
  \<open>fields.issuetype?.subtask === true\<close>; \<open>subtasks_length\<close> is the length of
  \<open>fields.subtasks\<close> (0 when the field is missing); \<open>created\<close> is \<open>new Date(fields.created)\<close>
  and \<open>duedate\<close> is \<open>new Date(fields.duedate)\<close>; \<open>fixVersions\<close> is empty when the field is missing.
\<close>

record version =
  version_id :: string
  version_name :: string
  version_description :: "string option"
  version_releaseDate :: "int option"
  version_released :: bool

record issue =
  key :: string
  summary :: string
  status_name :: "string option"
  priority_name :: "string option"
  assignee_displayName :: "string option"
  assignee_accountId :: "string option"
  issuetype_subtask :: bool
  issuetype_name :: "string option"
  timeoriginalestimate :: "int option"
  timeestimate :: "int option"
  timespent :: "int option"
  created :: int
  duedate :: "int option"
  fixVersions :: "version list"
  parent_key :: "string option"
  subtasks_length :: nat

subsection \<open>Subtask logic\<close>

definition isParentWithSubtasks :: "issue \<Rightarrow> bool" where
  "isParentWithSubtasks issue =
     (if subtasks_length issue > 0 then True
      else if includes_str (toLowerCase (orEmpty (issuetype_name issue))) ''main task'' then True
      else False)"

definition isSubtaskIssue :: "issue \<Rightarrow> bool" where
  "isSubtaskIssue issue =
     (issuetype_subtask issue
      \<or> includes_str (toLowerCase (orEmpty (issuetype_name issue))) ''sub-task''
      \<or> includes_str (toLowerCase (orEmpty (issuetype_name issue))) ''subtask'')"

record subtask_map =
  subtasksByParent :: "string \<rightharpoonup> issue list"
  subtaskKeys :: "string set"
  parentKeys :: "string set"

definition addSubtask :: "issue \<Rightarrow> subtask_map \<Rightarrow> subtask_map" where
  "addSubtask issue m =
     (case parent_key issue of
        None \<Rightarrow> m
      | Some parentKey \<Rightarrow>
          if isSubtaskIssue issue \<and> parentKey \<noteq> []
          then \<lparr> subtasksByParent = (subtasksByParent m)
                   (parentKey \<mapsto> (case subtasksByParent m parentKey of
                                   None \<Rightarrow> [] | Some subs \<Rightarrow> subs) @ [issue]),
                 subtaskKeys = insert (key issue) (subtaskKeys m),
                 parentKeys = insert parentKey (parentKeys m) \<rparr>
          else m)"

definition markParent :: "issue \<Rightarrow> subtask_map \<Rightarrow> subtask_map" where
  "markParent issue m =
     (if isParentWithSubtasks issue
      then m\<lparr> parentKeys := insert (key issue) (parentKeys m) \<rparr>
      else m)"

definition buildSubtaskMap :: "issue list \<Rightarrow> subtask_map" where
  "buildSubtaskMap issues =
     fold markParent issues
       (fold addSubtask issues
          \<lparr> subtasksByParent = Map.empty, subtaskKeys = {}, parentKeys = {} \<rparr>)"

text \<open>
  The three \<open>computeEffective...\<close> functions differ only in the field they read; the
  common loop takes the field as \<open>val\<close>.
\<close>

definition sumOver :: "(issue \<Rightarrow> real) \<Rightarrow> issue list \<Rightarrow> real" where
  "sumOver val subs = fold (\<lambda>sub acc. acc + val sub) subs 0"

definition effectiveStep :: "subtask_map \<Rightarrow> (issue \<Rightarrow> real) \<Rightarrow> issue \<Rightarrow> real \<Rightarrow> real" where
  "effectiveStep m val issue tot =
     (if key issue \<in> subtaskKeys m then tot
      else if key issue \<in> parentKeys m then
        (case subtasksByParent m (key issue) of
           None \<Rightarrow> tot
         | Some subs \<Rightarrow> if length subs > 0 then tot + sumOver val subs else tot)
      else tot + val issue)"

definition computeEffective :: "(issue \<Rightarrow> real) \<Rightarrow> issue list \<Rightarrow> real" where
  "computeEffective val issues = fold (effectiveStep (buildSubtaskMap issues) val) issues 0"

definition computeEffectiveRemaining :: "issue list \<Rightarrow> real" where
  "computeEffectiveRemaining issues =
     computeEffective (\<lambda>i. secondsToHours (timeestimate i)) issues"

definition computeEffectiveOriginalEstimate :: "issue list \<Rightarrow> real" where
  "computeEffectiveOriginalEstimate issues =
     computeEffective (\<lambda>i. secondsToHours (timeoriginalestimate i)) issues"

definition computeEffectiveSpent :: "issue list \<Rightarrow> real" where
  "computeEffectiveSpent issues =
     computeEffective (\<lambda>i. secondsToHours (timespent i)) issues"

text \<open>The assignee filter of the second generation: \<open>displayName === assignee\<close>.\<close>

definition filterByAssignee :: "string \<Rightarrow> issue list \<Rightarrow> issue list" where
  "filterByAssignee assignee issues =
     filter (\<lambda>i. assignee_displayName i = Some assignee) issues"

subsection \<open>The outside world: Jira, the key-value storage, the clock\<close>

text \<open>A thrown \<open>Error\<close> with its message.\<close>

datatype error = Error string

fun message :: "error \<Rightarrow> string" where
  "message (Error m) = m"

record sprint =
  sprint_id :: string
  sprint_name :: string
  sprint_startDate :: int
  sprint_endDate :: int

text \<open>One entry of an issue's changelog, and one worklog.\<close>

record changelog_item =
  item_field :: string
  item_fromString :: "string option"
  item_toString :: "string option"
  item_from :: "string option"
  item_to :: "string option"

record history =
  history_created :: int
  history_items :: "changelog_item list"

text \<open>\<open>worklog_started\<close> is the day of \<open>wl.started.split('T')[0]\<close>, when \<open>wl.started\<close> is set.\<close>

record worklog =
  worklog_started :: "int option"
  worklog_timeSpentSeconds :: "int option"

record board =
  board_id :: string
  board_name :: string
  board_projectKey :: "string option"

text \<open>
  A stored baseline is a JSON object; a field that one generation of the module does not
  write is absent (\<open>None\<close>) in what that generation stored.
\<close>

record baseline_entry =
  entry_key :: string
  entry_summary :: "string option"
  entry_originalEstimate :: real
  entry_remainingEstimate :: "real option"
  entry_timeSpent :: "real option"
  entry_assignee :: "string option"
  entry_status :: "string option"
  entry_issueType :: "string option"
  entry_isSubtask :: bool
  entry_parentKey :: "string option"
  entry_priority :: "string option"
  entry_addedAt :: "int option"
  entry_assigneeDisplayName :: "string option"
  entry_assigneeAccountId :: "string option"

record baseline =
  baseline_sprintId :: string
  baseline_createdAt :: "int option"
  baseline_capturedAt :: "int option"
  baseline_issueCount :: "nat option"
  baseline_issues :: "baseline_entry list"

record config =
  config_boardId :: "string option"
  config_teamSize :: nat
  config_workingDays :: nat

datatype stored = StoredBaseline baseline | StoredConfig config

type_synonym store = "string \<rightharpoonup> stored"

text \<open>
  What a request observes of its collaborators. A Jira request either throws or answers;
  \<open>getActiveSprint\<close> answers \<open>null\<close> for a response that is not ok or lists no sprint;
  \<open>getIssueChangelog\<close>, \<open>getIssueWorklogs\<close> and \<open>getRemovedFromSprintIssues\<close> catch every
  failure themselves and answer a list. A storage call of a kind (\<open>get\<close>, \<open>set\<close>, \<open>delete\<close>)
  throws when the flag of that kind is set.
\<close>

record env =
  now :: int
  storageGetFails :: bool
  storageSetFails :: bool
  storageDeleteFails :: bool
  getBoards :: "error + board list"
  getActiveSprint :: "string \<Rightarrow> error + sprint option"
  getSprintIssues :: "string \<Rightarrow> error + issue list"
  getIssueChangelog :: "string \<Rightarrow> history list"
  getIssueWorklogs :: "string \<Rightarrow> worklog list"
  getRemovedFromSprintIssues :: "string \<Rightarrow> string \<Rightarrow> issue list"

definition storage_get :: "env \<Rightarrow> store \<Rightarrow> string \<Rightarrow> error + stored option" where
  "storage_get e st k =
     (if storageGetFails e then Inl (Error ''storage unavailable'') else Inr (st k))"

definition storage_set :: "env \<Rightarrow> store \<Rightarrow> string \<Rightarrow> stored \<Rightarrow> (error + unit) \<times> store" where
  "storage_set e st k v =
     (if storageSetFails e then (Inl (Error ''storage unavailable''), st)
      else (Inr (), st(k \<mapsto> v)))"

definition storage_delete :: "env \<Rightarrow> store \<Rightarrow> string \<Rightarrow> (error + unit) \<times> store" where
  "storage_delete e st k =
     (if storageDeleteFails e then (Inl (Error ''storage unavailable''), st)
      else (Inr (), st(k := None)))"

definition baselineKey :: "string \<Rightarrow> string" where
  "baselineKey sprintId = ''baseline-'' @ sprintId"

definition configKey :: "string \<Rightarrow> string" where
  "configKey gadgetId = ''config-'' @ gadgetId"

subsection \<open>Baseline storage\<close>

definition doneStatuses :: "string list" where
  "doneStatuses = [''done'', ''closed'', ''resolved'', ''complete'']"

text \<open>\<open>!doneStatuses.some(s => status.includes(s))\<close> on the lower-cased status name.\<close>

definition isActiveIssue :: "issue \<Rightarrow> bool" where
  "isActiveIssue i =
     (let status = toLowerCase (orEmpty (status_name i))
      in \<not> list_ex (\<lambda>s. includes_str status s) doneStatuses)"

definition getSprintBaseline :: "env \<Rightarrow> store \<Rightarrow> string \<Rightarrow> stored option" where
  "getSprintBaseline e st sprintId =
     (case storage_get e st (baselineKey sprintId) of
        Inl err \<Rightarrow> None
      | Inr v \<Rightarrow> v)"

definition baselineEntry :: "issue \<Rightarrow> baseline_entry" where
  "baselineEntry i =
     \<lparr> entry_key = key i,
       entry_summary = Some (summary i),
       entry_originalEstimate = secondsToHours (timeoriginalestimate i),
       entry_remainingEstimate = Some (secondsToHours (timeestimate i)),
       entry_timeSpent = Some (secondsToHours (timespent i)),
       entry_assignee = (if truthy (assignee_displayName i) then assignee_displayName i else None),
       entry_status = Some (if truthy (status_name i) then orEmpty (status_name i) else ''To Do''),
       entry_issueType = Some (if truthy (issuetype_name i) then orEmpty (issuetype_name i) else ''Task''),
       entry_isSubtask = isSubtaskIssue i,
       entry_parentKey = (if truthy (parent_key i) then parent_key i else None),
       entry_priority = None,
       entry_addedAt = None,
       entry_assigneeDisplayName = None,
       entry_assigneeAccountId = None \<rparr>"

definition newBaseline :: "env \<Rightarrow> string \<Rightarrow> issue list \<Rightarrow> baseline" where
  "newBaseline e sprintId issues =
     (let activeIssues = filter isActiveIssue issues
      in \<lparr> baseline_sprintId = sprintId,
           baseline_createdAt = Some (now e),
           baseline_capturedAt = None,
           baseline_issueCount = Some (length activeIssues),
           baseline_issues = map baselineEntry activeIssues \<rparr>)"

definition saveSprintBaseline ::
  "env \<Rightarrow> store \<Rightarrow> string \<Rightarrow> issue list \<Rightarrow> (error + baseline) \<times> store" where
  "saveSprintBaseline e st sprintId issues =
     (let baseline = newBaseline e sprintId issues
      in case storage_set e st (baselineKey sprintId) (StoredBaseline baseline) of
           (Inl err, st') \<Rightarrow> (Inl err, st')
         | (Inr u, st') \<Rightarrow> (Inr baseline, st'))"

definition deleteSprintBaseline :: "env \<Rightarrow> store \<Rightarrow> string \<Rightarrow> bool \<times> store" where
  "deleteSprintBaseline e st sprintId =
     (case storage_delete e st (baselineKey sprintId) of
        (Inl err, st') \<Rightarrow> (False, st')
      | (Inr u, st') \<Rightarrow> (True, st'))"

text \<open>
  The head of \<open>getBurndownData\<close>: read the baseline, drop it when it looks corrupted,
  create it when there is none. \<open>baseline.issues.length\<close> throws a \<open>TypeError\<close> when the
  stored value has no \<open>issues\<close>.
\<close>

definition baselineLooksCorrupted :: "baseline \<Rightarrow> issue list \<Rightarrow> bool" where
  "baselineLooksCorrupted b allIssues =
     (let currentActiveCount = length (filter isActiveIssue allIssues)
      in real (length (baseline_issues b)) < real currentActiveCount * (3 / 10)
         \<and> length (baseline_issues b) < 10)"

definition getOrCreateBaseline ::
  "env \<Rightarrow> store \<Rightarrow> string \<Rightarrow> issue list \<Rightarrow> (error + baseline) \<times> store" where
  "getOrCreateBaseline e st sprintId allIssues =
     (case getSprintBaseline e st sprintId of
        None \<Rightarrow> saveSprintBaseline e st sprintId allIssues
      | Some (StoredConfig c) \<Rightarrow>
          (Inl (Error ''Cannot read properties of undefined (reading 'length')''), st)
      | Some (StoredBaseline b) \<Rightarrow>
          if baselineLooksCorrupted b allIssues
          then (let (deleted, st') = deleteSprintBaseline e st sprintId
                in saveSprintBaseline e st' sprintId allIssues)
          else (Inr b, st))"

subsection \<open>Changelogs and worklogs\<close>

definition analyzeItem ::
  "string \<Rightarrow> string \<Rightarrow> int \<Rightarrow> changelog_item \<Rightarrow> int option \<times> int option
     \<Rightarrow> int option \<times> int option" where
  "analyzeItem sprintName sprintId historyCreated item dates =
     (case dates of (addedDate, removedDate) \<Rightarrow>
        if item_field item = ''Sprint'' then
          (let fromStr = orEmpty (item_fromString item);
               toStr = orEmpty (item_toString item);
               fromId = orEmpty (item_from item);
               toId = orEmpty (item_to item);
               wasInFrom = (includes_str fromStr sprintName \<or> includes_str fromId sprintId);
               isInTo = (includes_str toStr sprintName \<or> includes_str toId sprintId);
               addedDate1 = (if \<not> wasInFrom \<and> isInTo then Some historyCreated else addedDate)
           in if wasInFrom \<and> \<not> isInTo then (None, Some historyCreated)
              else (addedDate1, removedDate))
        else (addedDate, removedDate))"

text \<open>The sort by \<open>created\<close> is stable, as \<open>Array.prototype.sort\<close> is.\<close>

definition analyzeSprintChangelog ::
  "history list \<Rightarrow> string \<Rightarrow> string \<Rightarrow> int option \<times> int option" where
  "analyzeSprintChangelog histories sprintName sprintId =
     fold (\<lambda>h dates. fold (analyzeItem sprintName sprintId (history_created h))
                           (history_items h) dates)
          (sort_key history_created histories) (None, None)"

definition getAllChangelogs :: "env \<Rightarrow> issue list \<Rightarrow> (string \<rightharpoonup> history list)" where
  "getAllChangelogs e issues =
     fold (\<lambda>i results. results(key i \<mapsto> getIssueChangelog e (key i))) issues Map.empty"

definition getAllWorklogs :: "env \<Rightarrow> issue list \<Rightarrow> worklog list" where
  "getAllWorklogs e issues = concat (map (\<lambda>i. getIssueWorklogs e (key i)) issues)"

subsection \<open>Scope changes by date\<close>

record scope_change =
  added :: real
  removed :: real

definition scopeAt :: "(int \<rightharpoonup> scope_change) \<Rightarrow> int \<Rightarrow> scope_change" where
  "scopeAt m dateStr =
     (case m dateStr of None \<Rightarrow> \<lparr> added = 0, removed = 0 \<rparr> | Some c \<Rightarrow> c)"

record added_issue =
  addedIssue_key :: string
  addedIssue_summary :: string
  addedIssue_addedDate :: int
  addedIssue_originalEstimate :: real

record removed_issue =
  removedIssue_key :: string
  removedIssue_summary :: string
  removedIssue_removedDate :: int
  removedIssue_originalEstimate :: real

text \<open>The day an issue counts as added on, if any: the changelog first, the creation date otherwise.\<close>

definition issueAddedDate ::
  "(string \<rightharpoonup> history list) \<Rightarrow> sprint \<Rightarrow> int \<Rightarrow> issue \<Rightarrow> int option" where
  "issueAddedDate allChangelogs sprint sprintStartDate issue =
     (let histories = (case allChangelogs (key issue) of None \<Rightarrow> [] | Some h \<Rightarrow> h)
      in case fst (analyzeSprintChangelog histories (sprint_name sprint) (sprint_id sprint)) of
           Some addedDate \<Rightarrow>
             (let addedDay = setHoursZero addedDate
              in if addedDay > sprintStartDate then Some addedDay else None)
         | None \<Rightarrow>
             (let createdDate = setHoursZero (created issue)
              in if createdDate > sprintStartDate then Some createdDate else None))"

definition addedStep ::
  "(string \<rightharpoonup> history list) \<Rightarrow> sprint \<Rightarrow> int \<Rightarrow> issue
     \<Rightarrow> added_issue list \<times> (int \<rightharpoonup> scope_change)
     \<Rightarrow> added_issue list \<times> (int \<rightharpoonup> scope_change)" where
  "addedStep allChangelogs sprint sprintStartDate issue acc =
     (case acc of (addedIssues, scopeChangesByDate) \<Rightarrow>
        case issueAddedDate allChangelogs sprint sprintStartDate issue of
          None \<Rightarrow> (addedIssues, scopeChangesByDate)
        | Some d \<Rightarrow>
            (let dateStr = isoDate d;
                 oe = secondsToHours (timeoriginalestimate issue);
                 c = scopeAt scopeChangesByDate dateStr
             in (addedIssues @ [\<lparr> addedIssue_key = key issue,
                                  addedIssue_summary = summary issue,
                                  addedIssue_addedDate = dateStr,
                                  addedIssue_originalEstimate = oe \<rparr>],
                 scopeChangesByDate(dateStr \<mapsto> c\<lparr> added := added c + oe \<rparr>))))"

definition removedStep ::
  "(string \<rightharpoonup> history list) \<Rightarrow> sprint \<Rightarrow> int \<Rightarrow> issue
     \<Rightarrow> removed_issue list \<times> (int \<rightharpoonup> scope_change)
     \<Rightarrow> removed_issue list \<times> (int \<rightharpoonup> scope_change)" where
  "removedStep removedChangelogs sprint nowTime removedIssue acc =
     (case acc of (removedIssues, scopeChangesByDate) \<Rightarrow>
        (let histories = (case removedChangelogs (key removedIssue) of None \<Rightarrow> [] | Some h \<Rightarrow> h);
             removeDateStr =
               (case snd (analyzeSprintChangelog histories (sprint_name sprint) (sprint_id sprint)) of
                  Some removedDate \<Rightarrow> isoDate removedDate
                | None \<Rightarrow>
                    (let today = setHoursZero nowTime
                     in if today \<le> sprint_endDate sprint then isoDate today
                        else isoDate (sprint_endDate sprint)));
             oe = secondsToHours (timeoriginalestimate removedIssue);
             c = scopeAt scopeChangesByDate removeDateStr
         in (removedIssues @ [\<lparr> removedIssue_key = key removedIssue,
                                  removedIssue_summary = summary removedIssue,
                                  removedIssue_removedDate = removeDateStr,
                                  removedIssue_originalEstimate = oe \<rparr>],
             scopeChangesByDate(removeDateStr \<mapsto> c\<lparr> removed := removed c + oe \<rparr>))))"

definition worklogStep :: "worklog \<Rightarrow> (int \<rightharpoonup> real) \<Rightarrow> (int \<rightharpoonup> real)" where
  "worklogStep wl worklogByDate =
     (case worklog_started wl of
        None \<Rightarrow> worklogByDate
      | Some dateStr \<Rightarrow>
          worklogByDate(dateStr \<mapsto>
            (case worklogByDate dateStr of None \<Rightarrow> 0 | Some h \<Rightarrow> h)
            + secondsToHours (Some (case worklog_timeSpentSeconds wl of None \<Rightarrow> 0 | Some t \<Rightarrow> t))))"

subsection \<open>The data points\<close>

datatype point_date = StartLabel | DateStr int

record data_point =
  point_date :: point_date
  ideal :: real
  remaining :: "real option"
  totalRemaining :: "real option"
  timeLogged :: "real option"
  dayLogged :: "real option"
  cumulativeLogged :: "real option"
  point_added :: real
  point_removed :: real

record series_input =
  startDate :: int
  endDate :: int
  today :: int
  maxCapacity :: real
  workingDays :: nat
  totalOriginalEstimate :: real
  scopeChangesByDate :: "int \<rightharpoonup> scope_change"
  worklogByDate :: "int \<rightharpoonup> real"

record loop_state =
  workingDayCount :: nat
  runningRemaining :: real
  cumulativeLoggedSoFar :: real

definition startPoint :: "series_input \<Rightarrow> data_point" where
  "startPoint c =
     \<lparr> point_date = StartLabel,
       ideal = round10 (maxCapacity c),
       remaining = Some (round10 (totalOriginalEstimate c)),
       totalRemaining = None,
       timeLogged = Some 0,
       dayLogged = Some 0,
       cumulativeLogged = Some 0,
       point_added = 0,
       point_removed = 0 \<rparr>"

text \<open>One round of the \<open>while (current <= endDate)\<close> loop: the new loop variables and the point pushed.\<close>

definition dayState :: "series_input \<Rightarrow> int \<Rightarrow> loop_state \<Rightarrow> loop_state" where
  "dayState c current s =
     (let isPastOrToday = (setHoursZero current \<le> today c);
          scopeChange = scopeAt (scopeChangesByDate c) (isoDate current);
          logged = (case worklogByDate c (isoDate current) of None \<Rightarrow> 0 | Some h \<Rightarrow> h)
      in \<lparr> workingDayCount =
             (if isWorkingDay current \<and> current > startDate c
              then workingDayCount s + 1 else workingDayCount s),
           runningRemaining =
             (if isPastOrToday
              then runningRemaining s - logged + added scopeChange - removed scopeChange
              else runningRemaining s),
           cumulativeLoggedSoFar =
             (if isPastOrToday then cumulativeLoggedSoFar s + logged
              else cumulativeLoggedSoFar s) \<rparr>)"

definition dayPoint :: "series_input \<Rightarrow> int \<Rightarrow> loop_state \<Rightarrow> data_point" where
  "dayPoint c current s1 =
     (let dailyDecrease = maxCapacity c / real (workingDays c);
          idealValue = max 0 (maxCapacity c - dailyDecrease * real (workingDayCount s1));
          isPastOrToday = (setHoursZero current \<le> today c);
          scopeChange = scopeAt (scopeChangesByDate c) (isoDate current);
          logged = (case worklogByDate c (isoDate current) of None \<Rightarrow> 0 | Some h \<Rightarrow> h)
      in \<lparr> point_date = DateStr (isoDate current),
           ideal = round10 idealValue,
           remaining =
             (if isPastOrToday
              then Some (round10 (runningRemaining s1 - added scopeChange)) else None),
           totalRemaining =
             (if isPastOrToday then Some (round10 (runningRemaining s1)) else None),
           timeLogged =
             (if isPastOrToday then Some (round10 (cumulativeLoggedSoFar s1)) else None),
           dayLogged = (if isPastOrToday then Some (round10 logged) else None),
           cumulativeLogged =
             (if isPastOrToday then Some (round10 (cumulativeLoggedSoFar s1)) else None),
           point_added =
             (if added scopeChange > 0 then round10 (added scopeChange) else 0),
           point_removed =
             (if removed scopeChange > 0 then - round10 (removed scopeChange) else 0) \<rparr>)"

function dataPointsLoop :: "series_input \<Rightarrow> int \<Rightarrow> loop_state \<Rightarrow> data_point list" where
  "dataPointsLoop c current s =
     (if current \<le> endDate c
      then dayPoint c current (dayState c current s)
           # dataPointsLoop c (current + msPerDay) (dayState c current s)
      else [])"
  by pat_completeness auto
termination
  by (relation "measure (\<lambda>(c, current, s). nat (endDate c - current + 1))")
     (auto simp: msPerDay_def)

declare dataPointsLoop.simps [simp del]

definition generateDataPoints :: "series_input \<Rightarrow> data_point list" where
  "generateDataPoints c =
     startPoint c
     # dataPointsLoop c (startDate c)
         \<lparr> workingDayCount = 0,
           runningRemaining = totalOriginalEstimate c,
           cumulativeLoggedSoFar = 0 \<rparr>"

subsection \<open>Requests and replies\<close>

text \<open>
  What a resolver returns: \<open>{ success: true, ... }\<close>, \<open>{ success: false, error }\<close>, or an
  object without the \<open>success\<close> tag. An \<open>async\<close> resolver that throws rejects: \<open>Inl\<close>.
\<close>

datatype 'a reply = Success 'a | Failure string | Untagged 'a

record payload =
  payload_boardId :: "string option"
  payload_assignee :: "string option"
  payload_teamSize :: "nat option"
  payload_expand :: bool

text \<open>\<open>try { ... } catch (error) { return { success: false, error: error.message } }\<close>\<close>

definition catchAsFailure :: "(error + 'a reply) \<times> store \<Rightarrow> (error + 'a reply) \<times> store" where
  "catchAsFailure r =
     (case r of
        (Inl err, st) \<Rightarrow> (Inr (Failure (message err)), st)
      | (Inr v, st) \<Rightarrow> (Inr v, st))"

subsection \<open>\<open>getBurndownData\<close>\<close>

text \<open>
  The reply's data. The fields \<open>issueDetails\<close>, \<open>jiraBaseUrl\<close> and \<open>_debug\<close>, which only feed
  the debug panel, are left out.
\<close>

record burndown_data =
  data_dataPoints :: "data_point list"
  data_sprintName :: string
  data_sprintStartDate :: int
  data_sprintEndDate :: int
  data_maxCapacity :: real
  data_totalOriginalEstimate :: real
  data_currentRemaining :: real
  data_totalSpent :: real
  data_scopeAddedTotal :: real
  data_scopeRemovedTotal :: real
  data_workingDays :: nat
  data_teamSize :: nat
  data_assignees :: "string list"
  data_addedIssuesCount :: nat
  data_removedIssuesCount :: nat
  data_removedIssueDetails :: "removed_issue list"
  data_addedIssues :: "added_issue list"
  data_baselineIssueCount :: nat

text \<open>\<open>[...new Set(allIssues.map(i => i.fields.assignee?.displayName).filter(Boolean))]\<close>\<close>

definition uniqueInOrder :: "string list \<Rightarrow> string list" where
  "uniqueInOrder xs = fold (\<lambda>x seen. if x \<in> set seen then seen else seen @ [x]) xs []"

definition allAssigneesOf :: "issue list \<Rightarrow> string list" where
  "allAssigneesOf allIssues =
     uniqueInOrder (map orEmpty (filter truthy (map assignee_displayName allIssues)))"

text \<open>\<open>assignee && assignee !== 'All'\<close>\<close>

definition singleAssignee :: "string option \<Rightarrow> bool" where
  "singleAssignee assignee = (truthy assignee \<and> assignee \<noteq> Some ''All'')"

text \<open>\<open>configTeamSize || allAssignees.length || 1\<close>\<close>

definition defaultTeamSize :: "nat option \<Rightarrow> string list \<Rightarrow> nat" where
  "defaultTeamSize configTeamSize allAssignees =
     (case configTeamSize of
        Some n \<Rightarrow> if n \<noteq> 0 then n
                  else if length allAssignees \<noteq> 0 then length allAssignees else 1
      | None \<Rightarrow> if length allAssignees \<noteq> 0 then length allAssignees else 1)"

definition baselineTotal :: "baseline_entry list \<Rightarrow> real" where
  "baselineTotal entries = fold (\<lambda>item acc. acc + entry_originalEstimate item) entries 0"

text \<open>
  Everything after the baseline is known; nothing there throws. The body of the resolver
  is cut into the values it computes, in the order of the source.
\<close>

definition workingSet :: "payload \<Rightarrow> issue list \<Rightarrow> issue list" where
  "workingSet p allIssues =
     (if singleAssignee (payload_assignee p)
      then filterByAssignee (orEmpty (payload_assignee p)) allIssues
      else allIssues)"

definition teamSizeFor :: "payload \<Rightarrow> issue list \<Rightarrow> nat" where
  "teamSizeFor p allIssues =
     (if singleAssignee (payload_assignee p) then 1
      else defaultTeamSize (payload_teamSize p) (allAssigneesOf allIssues))"

definition filteredBaselineIssues :: "payload \<Rightarrow> baseline \<Rightarrow> baseline_entry list" where
  "filteredBaselineIssues p baseline =
     (if singleAssignee (payload_assignee p)
      then filter (\<lambda>b. entry_assignee b = Some (orEmpty (payload_assignee p)))
             (baseline_issues baseline)
      else baseline_issues baseline)"

definition capacityFor :: "payload \<Rightarrow> sprint \<Rightarrow> issue list \<Rightarrow> real" where
  "capacityFor p sprint allIssues =
     real (countWorkingDays (sprint_startDate sprint) (sprint_endDate sprint)
           * HOURS_PER_DAY * teamSizeFor p allIssues)"

text \<open>\<open>filteredBaseline?.issues?.reduce(...) || computeEffectiveOriginalEstimate(issues)\<close>\<close>

definition totalOriginalEstimateFor :: "payload \<Rightarrow> issue list \<Rightarrow> baseline \<Rightarrow> real" where
  "totalOriginalEstimateFor p allIssues baseline =
     (let baselineSum = baselineTotal (filteredBaselineIssues p baseline)
      in if baselineSum \<noteq> 0 then baselineSum
         else computeEffectiveOriginalEstimate (workingSet p allIssues))"

definition addedScope ::
  "env \<Rightarrow> sprint \<Rightarrow> issue list \<Rightarrow> added_issue list \<times> (int \<rightharpoonup> scope_change)" where
  "addedScope e sprint issues =
     (let sprintStartDate = setHoursZero (sprint_startDate sprint);
          issuesNeedingChangelog =
            filter (\<lambda>i. setHoursZero (created i) \<ge> sprintStartDate) issues;
          allChangelogs = getAllChangelogs e issuesNeedingChangelog
      in fold (addedStep allChangelogs sprint sprintStartDate) issues ([], Map.empty))"

definition removedScope ::
  "env \<Rightarrow> sprint \<Rightarrow> (int \<rightharpoonup> scope_change)
     \<Rightarrow> removed_issue list \<times> (int \<rightharpoonup> scope_change)" where
  "removedScope e sprint scope1 =
     (let removedFromSprintIssues =
            getRemovedFromSprintIssues e (sprint_id sprint) (sprint_name sprint);
          removedChangelogs = getAllChangelogs e removedFromSprintIssues
      in fold (removedStep removedChangelogs sprint (now e)) removedFromSprintIssues
           ([], scope1))"

definition scopeAddedTotalOf :: "added_issue list \<Rightarrow> real" where
  "scopeAddedTotalOf addedIssues =
     fold (\<lambda>i acc. acc + addedIssue_originalEstimate i) addedIssues 0"

definition scopeRemovedTotalOf :: "removed_issue list \<Rightarrow> real" where
  "scopeRemovedTotalOf removedIssues =
     fold (\<lambda>i acc. acc + removedIssue_originalEstimate i) removedIssues 0"

definition seriesInput ::
  "env \<Rightarrow> payload \<Rightarrow> sprint \<Rightarrow> issue list \<Rightarrow> baseline \<Rightarrow> series_input" where
  "seriesInput e p sprint allIssues baseline =
     (let issues = workingSet p allIssues
      in \<lparr> startDate = sprint_startDate sprint,
           endDate = sprint_endDate sprint,
           today = setHoursZero (now e),
           maxCapacity = capacityFor p sprint allIssues,
           workingDays = countWorkingDays (sprint_startDate sprint) (sprint_endDate sprint),
           totalOriginalEstimate = totalOriginalEstimateFor p allIssues baseline,
           scopeChangesByDate =
             snd (removedScope e sprint (snd (addedScope e sprint issues))),
           worklogByDate = fold worklogStep (getAllWorklogs e issues) Map.empty \<rparr>)"

definition burndownFrom ::
  "env \<Rightarrow> payload \<Rightarrow> sprint \<Rightarrow> issue list \<Rightarrow> baseline \<Rightarrow> burndown_data" where
  "burndownFrom e p sprint allIssues baseline =
     (let issues = workingSet p allIssues;
          addedIssues = fst (addedScope e sprint issues);
          removedIssues = fst (removedScope e sprint (snd (addedScope e sprint issues)))
      in \<lparr> data_dataPoints = generateDataPoints (seriesInput e p sprint allIssues baseline),
           data_sprintName = sprint_name sprint,
           data_sprintStartDate = sprint_startDate sprint,
           data_sprintEndDate = sprint_endDate sprint,
           data_maxCapacity = round10 (capacityFor p sprint allIssues),
           data_totalOriginalEstimate =
             round10 (totalOriginalEstimateFor p allIssues baseline),
           data_currentRemaining = round10 (computeEffectiveRemaining issues),
           data_totalSpent = round10 (computeEffectiveSpent issues),
           data_scopeAddedTotal = round10 (scopeAddedTotalOf addedIssues),
           data_scopeRemovedTotal = round10 (scopeRemovedTotalOf removedIssues),
           data_workingDays =
             countWorkingDays (sprint_startDate sprint) (sprint_endDate sprint),
           data_teamSize = teamSizeFor p allIssues,
           data_assignees = allAssigneesOf allIssues,
           data_addedIssuesCount = length addedIssues,
           data_removedIssuesCount = length removedIssues,
           data_removedIssueDetails = removedIssues,
           data_addedIssues = addedIssues,
           data_baselineIssueCount = length (filteredBaselineIssues p baseline) \<rparr>)"

definition getBurndownData_try ::
  "env \<Rightarrow> store \<Rightarrow> payload \<Rightarrow> (error + burndown_data reply) \<times> store" where
  "getBurndownData_try e st p =
     (if \<not> truthy (payload_boardId p) then (Inr (Failure ''Board ID is required''), st)
      else case getActiveSprint e (orEmpty (payload_boardId p)) of
        Inl err \<Rightarrow> (Inl err, st)
      | Inr None \<Rightarrow> (Inr (Failure ''No active sprint found''), st)
      | Inr (Some sprint) \<Rightarrow>
          (case getSprintIssues e (sprint_id sprint) of
             Inl err \<Rightarrow> (Inl err, st)
           | Inr allIssues \<Rightarrow>
               (case getOrCreateBaseline e st (sprint_id sprint) allIssues of
                  (Inl err, st1) \<Rightarrow> (Inl err, st1)
                | (Inr baseline, st1) \<Rightarrow>
                    (Inr (Success (burndownFrom e p sprint allIssues baseline)), st1))))"

definition getBurndownData ::
  "env \<Rightarrow> store \<Rightarrow> payload \<Rightarrow> (error + burndown_data reply) \<times> store" where
  "getBurndownData e st p = catchAsFailure (getBurndownData_try e st p)"

subsection \<open>The other resolvers\<close>





definition defaultConfig :: config where
  "defaultConfig = \<lparr> config_boardId = None, config_teamSize = 10, config_workingDays = 10 \<rparr>"

text \<open>\<open>context.extension?.gadget?.id || 'default'\<close>\<close>

definition gadgetIdOf :: "string option \<Rightarrow> string" where
  "gadgetIdOf gadget = (if truthy gadget then orEmpty gadget else ''default'')"

text \<open>\<open>getConfig\<close> returns what is stored, or the default configuration; its \<open>catch\<close> returns the default as well.\<close>

definition getConfig :: "env \<Rightarrow> store \<Rightarrow> string option \<Rightarrow> (error + stored reply) \<times> store" where
  "getConfig e st gadget =
     (case storage_get e st (configKey (gadgetIdOf gadget)) of
        Inl err \<Rightarrow> (Inr (Untagged (StoredConfig defaultConfig)), st)
      | Inr None \<Rightarrow> (Inr (Untagged (StoredConfig defaultConfig)), st)
      | Inr (Some v) \<Rightarrow> (Inr (Untagged v), st))"

definition saveConfig ::
  "env \<Rightarrow> store \<Rightarrow> string option \<Rightarrow> config \<Rightarrow> (error + unit reply) \<times> store" where
  "saveConfig e st gadget p =
     catchAsFailure
       (case storage_set e st (configKey (gadgetIdOf gadget)) (StoredConfig p) of
          (Inl err, st1) \<Rightarrow> (Inl err, st1)
        | (Inr u, st1) \<Rightarrow> (Inr (Success ()), st1))"


subsubsection \<open>Sprint health\<close>







subsubsection \<open>Status order\<close>

definition STATUS_ORDER :: "(string \<times> nat) list" where
  "STATUS_ORDER =
     [(''in progress'', 1), (''in progress - main task'', 1),
      (''to do'', 2), (''open'', 2), (''backlog'', 2), (''hold'', 2),
      (''done'', 3), (''closed'', 3), (''resolved'', 3), (''complete'', 3)]"

definition getStatusOrder :: "string option \<Rightarrow> nat" where
  "getStatusOrder statusName =
     (let lower = toLowerCase (orEmpty statusName)
      in case find (\<lambda>(k, order). includes_str lower k) STATUS_ORDER of
           Some (k, order) \<Rightarrow> order
         | None \<Rightarrow> 2)"

text \<open>\<open>items.sort((a, b) => orderA - orderB)\<close>: a stable sort on the status order.\<close>

definition sortByStatus :: "('a \<Rightarrow> string option) \<Rightarrow> 'a list \<Rightarrow> 'a list" where
  "sortByStatus statusField items = sort_key (\<lambda>a. getStatusOrder (statusField a)) items"

subsubsection \<open>At-risk items\<close>








subsubsection \<open>Priority items\<close>






subsubsection \<open>Release progress\<close>

record release_issue =
  releaseIssue_key :: string
  releaseIssue_summary :: string
  releaseIssue_status :: "string option"
  releaseIssue_priority :: "string option"
  releaseIssue_assignee :: string
  releaseIssue_isDone :: bool
  releaseIssue_estimate :: real

record release =
  release_id :: string
  release_name :: string
  release_description :: string
  release_releaseDate :: "int option"
  release_released :: bool
  release_totalIssues :: nat
  release_doneIssues :: nat
  release_totalEstimate :: real
  release_doneEstimate :: real
  release_issues :: "release_issue list"
  release_progress :: int




definition finishRelease :: "release \<Rightarrow> release" where
  "finishRelease r =
     r\<lparr> release_issues := sortByStatus releaseIssue_status (release_issues r),
        release_progress :=
          (if release_totalIssues r > 0
           then Math_round
                  (fl (fl (real (release_doneIssues r) / real (release_totalIssues r)) * 100))
           else 0),
        release_totalEstimate := round10 (release_totalEstimate r),
        release_doneEstimate := round10 (release_doneEstimate r) \<rparr>"




subsubsection \<open>Scope changes\<close>







subsection \<open>First generation: baseline handling and team size\<close>

text \<open>
  The first generation stores other fields per entry, keeps finished issues in the
  baseline, and its \<open>saveSprintBaseline\<close> catches a storage failure and answers \<open>false\<close>.
\<close>

definition baselineEntry_v1 :: "issue \<Rightarrow> baseline_entry" where
  "baselineEntry_v1 i =
     \<lparr> entry_key = key i,
       entry_summary = None,
       entry_originalEstimate = secondsToHours (timeoriginalestimate i),
       entry_remainingEstimate = None,
       entry_timeSpent = None,
       entry_assignee = None,
       entry_status = None,
       entry_issueType = None,
       entry_isSubtask = (issuetype_subtask i \<or> parent_key i \<noteq> None),
       entry_parentKey = None,
       entry_priority = priority_name i,
       entry_addedAt = Some (created i),
       entry_assigneeDisplayName =
         (if truthy (assignee_displayName i) then assignee_displayName i else None),
       entry_assigneeAccountId =
         (if truthy (assignee_accountId i) then assignee_accountId i else None) \<rparr>"

definition saveSprintBaseline_v1 :: "env \<Rightarrow> store \<Rightarrow> string \<Rightarrow> issue list \<Rightarrow> bool \<times> store" where
  "saveSprintBaseline_v1 e st sprintId issues =
     (case storage_set e st (baselineKey sprintId)
             (StoredBaseline
                \<lparr> baseline_sprintId = sprintId,
                  baseline_createdAt = None,
                  baseline_capturedAt = Some (now e),
                  baseline_issueCount = None,
                  baseline_issues = map baselineEntry_v1 issues \<rparr>) of
        (Inl err, st1) \<Rightarrow> (False, st1)
      | (Inr u, st1) \<Rightarrow> (True, st1))"

text \<open>
  \<open>let baseline = await getSprintBaseline(sprint.id); if (!baseline) { await
  saveSprintBaseline(sprint.id, allIssues); baseline = await getSprintBaseline(sprint.id); }\<close>,
  as in \<open>getBurndownData\<close> and \<open>getScopeChanges\<close> of the first generation.
\<close>

definition getOrCreateBaseline_v1 ::
  "env \<Rightarrow> store \<Rightarrow> string \<Rightarrow> issue list \<Rightarrow> stored option \<times> store" where
  "getOrCreateBaseline_v1 e st sprintId allIssues =
     (case getSprintBaseline e st sprintId of
        Some b \<Rightarrow> (Some b, st)
      | None \<Rightarrow>
          (let (saved, st1) = saveSprintBaseline_v1 e st sprintId allIssues
           in (getSprintBaseline e st1 sprintId, st1)))"

text \<open>What a call of the first generation's \<open>getScopeChanges\<close> leaves in the storage.\<close>

definition getScopeChanges_v1_store :: "env \<Rightarrow> store \<Rightarrow> payload \<Rightarrow> store" where
  "getScopeChanges_v1_store e st p =
     (if \<not> truthy (payload_boardId p) then st
      else case getActiveSprint e (orEmpty (payload_boardId p)) of
        Inl err \<Rightarrow> st
      | Inr None \<Rightarrow> st
      | Inr (Some sprint) \<Rightarrow>
          (case getSprintIssues e (sprint_id sprint) of
             Inl err \<Rightarrow> st
           | Inr allIssues \<Rightarrow> snd (getOrCreateBaseline_v1 e st (sprint_id sprint) allIssues)))"

record reset_data =
  reset_message :: string
  reset_issuesCount :: nat

definition resetBaseline_v1 :: "env \<Rightarrow> store \<Rightarrow> payload \<Rightarrow> (error + reset_data reply) \<times> store" where
  "resetBaseline_v1 e st p =
     catchAsFailure
       (if \<not> truthy (payload_boardId p) then (Inr (Failure ''Board ID is required''), st)
        else case getActiveSprint e (orEmpty (payload_boardId p)) of
          Inl err \<Rightarrow> (Inl err, st)
        | Inr None \<Rightarrow> (Inr (Failure ''No active sprint found''), st)
        | Inr (Some sprint) \<Rightarrow>
            (case getSprintIssues e (sprint_id sprint) of
               Inl err \<Rightarrow> (Inl err, st)
             | Inr issues \<Rightarrow>
                 (let (saved, st1) = saveSprintBaseline_v1 e st (sprint_id sprint) issues
                  in (Inr (Success \<lparr> reset_message = ''Baseline reset successfully'',
                                      reset_issuesCount = length issues \<rparr>), st1))))"

text \<open>\<open>allAssignees.length || configTeamSize || 1\<close>, and 1 for a single assignee.\<close>

definition teamSizeFor_v1 :: "payload \<Rightarrow> issue list \<Rightarrow> nat" where
  "teamSizeFor_v1 p allIssues =
     (if singleAssignee (payload_assignee p) then 1
      else if length (allAssigneesOf allIssues) \<noteq> 0 then length (allAssigneesOf allIssues)
      else case payload_teamSize p of
             None \<Rightarrow> 1
           | Some n \<Rightarrow> if n \<noteq> 0 then n else 1)"

definition capacityFor_v1 :: "payload \<Rightarrow> sprint \<Rightarrow> issue list \<Rightarrow> real" where
  "capacityFor_v1 p sprint allIssues =
     real (countWorkingDays (sprint_startDate sprint) (sprint_endDate sprint)
           * HOURS_PER_DAY * teamSizeFor_v1 p allIssues)"

section \<open>The specification's notions\<close>

subsection \<open>Effective values\<close>

text \<open>
  A subtask, as the code recognises it in a working set: an issue of a subtask type that
  names its parent. The subtasks of a parent that are present in the working set, and
  the contribution of one issue to an effective total: nothing for a subtask, the sum
  over the present subtasks for a parent that has some, nothing for a parent that has
  none present, the issue's own value otherwise.
\<close>

definition isPresentSubtask :: "issue \<Rightarrow> bool" where
  "isPresentSubtask i = (isSubtaskIssue i \<and> truthy (parent_key i))"

definition presentSubtasksOf :: "issue list \<Rightarrow> string \<Rightarrow> issue list" where
  "presentSubtasksOf issues k =
     filter (\<lambda>s. isSubtaskIssue s \<and> parent_key s = Some k \<and> k \<noteq> []) issues"

definition effectiveValue :: "(issue \<Rightarrow> real) \<Rightarrow> issue list \<Rightarrow> issue \<Rightarrow> real" where
  "effectiveValue val issues i =
     (if isPresentSubtask i then 0
      else if presentSubtasksOf issues (key i) \<noteq> []
        then sum_list (map val (presentSubtasksOf issues (key i)))
      else if isParentWithSubtasks i then 0
      else val i)"

subsection \<open>The series, day by day\<close>

text \<open>
  The \<open>n\<close>-th calendar day of the sprint (the start day is day 0), what was logged and
  what scope changed on a day, the remaining work as the specification accumulates it
  (index 0 is the sprint start, index \<open>d + 1\<close> the end of calendar day \<open>d\<close>), the number
  of working days elapsed since the start day, and the ideal value after \<open>n\<close> of them.
\<close>

definition dayOf :: "series_input \<Rightarrow> nat \<Rightarrow> int" where
  "dayOf c n = startDate c + int n * msPerDay"

definition loggedOn :: "series_input \<Rightarrow> int \<Rightarrow> real" where
  "loggedOn c t = (case worklogByDate c (isoDate t) of None \<Rightarrow> 0 | Some h \<Rightarrow> h)"




fun loggedUpTo :: "series_input \<Rightarrow> nat \<Rightarrow> real" where
  "loggedUpTo c 0 = 0"
| "loggedUpTo c (Suc d) = loggedUpTo c d + loggedOn c (dayOf c d)"



text \<open>The loop variables after the rounds for the days \<open>cur\<close>, \<open>cur + 1\<close>, ..., \<open>cur + k\<close>.\<close>

fun stateOn :: "series_input \<Rightarrow> int \<Rightarrow> loop_state \<Rightarrow> nat \<Rightarrow> loop_state" where
  "stateOn c cur s 0 = dayState c cur s"
| "stateOn c cur s (Suc k) = dayState c (cur + int (Suc k) * msPerDay) (stateOn c cur s k)"

definition initialState :: "series_input \<Rightarrow> loop_state" where
  "initialState c =
     \<lparr> workingDayCount = 0, runningRemaining = totalOriginalEstimate c,
       cumulativeLoggedSoFar = 0 \<rparr>"


subsection \<open>Baseline policy\<close>

text \<open>The corruption heuristic: fewer entries than 30% of the issues that are not done, and fewer than 10.\<close>

definition staleBaseline :: "nat \<Rightarrow> nat \<Rightarrow> bool" where
  "staleBaseline entryCount activeCount =
     (real entryCount < 3 / 10 * real activeCount \<and> entryCount < 10)"

text \<open>
  What a regeneration of the baseline leaves behind, starting from the storage \<open>st\<close>:
  the baseline made from the current issues is stored and the reply is computed from
  it; if the write throws, the reply is a failure and \<open>st\<close> stays.
\<close>

definition regenerated ::
  "env \<Rightarrow> store \<Rightarrow> payload \<Rightarrow> sprint \<Rightarrow> issue list
     \<Rightarrow> (error + burndown_data reply) \<times> store" where
  "regenerated e st p sprint allIssues =
     (if storageSetFails e then (Inr (Failure ''storage unavailable''), st)
      else (Inr (Success (burndownFrom e p sprint allIssues
                            (newBaseline e (sprint_id sprint) allIssues))),
            st(baselineKey (sprint_id sprint)
                 \<mapsto> StoredBaseline (newBaseline e (sprint_id sprint) allIssues))))"

text \<open>
  A request for burndown data reaches the baseline of sprint \<open>sid\<close> when that sprint is
  the board's active sprint and its issues can be fetched. It meets the repair
  condition for the value \<open>v\<close> stored for the sprint when, in addition, \<open>v\<close> is a baseline
  that looks corrupted against these issues; it meets a read failure when it reaches
  the baseline and the storage read throws.
\<close>

definition reachesBaseline :: "env \<Rightarrow> payload \<Rightarrow> string \<Rightarrow> bool" where
  "reachesBaseline e p sid =
     (truthy (payload_boardId p) \<and>
      (case getActiveSprint e (orEmpty (payload_boardId p)) of
         Inr (Some sprint) \<Rightarrow>
           sprint_id sprint = sid \<and>
           (case getSprintIssues e (sprint_id sprint) of
              Inr allIssues \<Rightarrow> True
            | Inl err \<Rightarrow> False)
       | Inr None \<Rightarrow> False
       | Inl err \<Rightarrow> False))"

definition readFailure :: "env \<Rightarrow> payload \<Rightarrow> string \<Rightarrow> bool" where
  "readFailure e p sid = (storageGetFails e \<and> reachesBaseline e p sid)"

definition repairCondition :: "env \<Rightarrow> payload \<Rightarrow> string \<Rightarrow> stored \<Rightarrow> bool" where
  "repairCondition e p sid v =
     (truthy (payload_boardId p) \<and>
      (case getActiveSprint e (orEmpty (payload_boardId p)) of
         Inr (Some sprint) \<Rightarrow>
           sprint_id sprint = sid \<and>
           (case getSprintIssues e (sprint_id sprint) of
              Inr allIssues \<Rightarrow>
                (case v of
                   StoredBaseline b \<Rightarrow> baselineLooksCorrupted b allIssues
                 | StoredConfig c \<Rightarrow> False)
            | Inl err \<Rightarrow> False)
       | Inr None \<Rightarrow> False
       | Inl err \<Rightarrow> False))"

subsection \<open>Scope conservation\<close>



definition sprintEntryDate :: "env \<Rightarrow> sprint \<Rightarrow> issue list \<Rightarrow> issue \<Rightarrow> int option" where
  "sprintEntryDate e sprint issues i =
     issueAddedDate
       (getAllChangelogs e
          (filter (\<lambda>i. setHoursZero (created i) \<ge> setHoursZero (sprint_startDate sprint)) issues))
       sprint (setHoursZero (sprint_startDate sprint)) i"








subsection \<open>What a caller sees of a resolver\<close>







section \<open>Example data\<close>

definition exampleIssue ::
  "string \<Rightarrow> string \<Rightarrow> string \<Rightarrow> bool \<Rightarrow> string option \<Rightarrow> nat \<Rightarrow> int option \<Rightarrow> int option
     \<Rightarrow> int option \<Rightarrow> issue" where
  "exampleIssue k who typeName sub parent subs oe rest spent =
     \<lparr> key = k,
       summary = ''work'',
       status_name = Some ''In Progress'',
       priority_name = Some ''Medium'',
       assignee_displayName = Some who,
       assignee_accountId = None,
       issuetype_subtask = sub,
       issuetype_name = Some typeName,
       timeoriginalestimate = oe,
       timeestimate = rest,
       timespent = spent,
       created = 1703000000000,
       duedate = None,
       fixVersions = [],
       parent_key = parent,
       subtasks_length = subs \<rparr>"

text \<open>A parent of two subtasks of 3h each, one owned by Alice and one by Bob, and a plain task.\<close>

definition exampleParent :: issue where
  "exampleParent = exampleIssue ''P-1'' ''Alice'' ''Task'' False None 2 (Some 21600) (Some 21600) None"

definition exampleSub1 :: issue where
  "exampleSub1 =
     exampleIssue ''P-2'' ''Alice'' ''Sub-task'' True (Some ''P-1'') 0 (Some 10800) (Some 10800) None"

definition exampleSub2 :: issue where
  "exampleSub2 =
     exampleIssue ''P-3'' ''Bob'' ''Sub-task'' True (Some ''P-1'') 0 (Some 10800) (Some 10800) None"

definition exampleTask :: issue where
  "exampleTask =
     exampleIssue ''P-4'' ''Bob'' ''Task'' False None 0 (Some 18000) (Some 10800) (Some 10800)"

definition exampleIssues :: "issue list" where
  "exampleIssues = [exampleParent, exampleSub1, exampleSub2, exampleTask]"

text \<open>A sprint from Monday 2024-01-01 to Friday 2024-01-12, looked at on Thursday 2024-01-04, 10:00.\<close>

definition exampleSprint :: sprint where
  "exampleSprint =
     \<lparr> sprint_id = ''42'', sprint_name = ''Sprint 7'',
       sprint_startDate = 1704067200000, sprint_endDate = 1705017600000 \<rparr>"

definition exampleEnv :: env where
  "exampleEnv =
     \<lparr> now = 1704362400000,
       storageGetFails = False,
       storageSetFails = False,
       storageDeleteFails = False,
       getBoards = Inr [],
       getActiveSprint = (\<lambda>boardId. if boardId = ''1'' then Inr (Some exampleSprint) else Inr None),
       getSprintIssues = (\<lambda>sprintId. Inr exampleIssues),
       getIssueChangelog = (\<lambda>k. []),
       getIssueWorklogs = (\<lambda>k. []),
       getRemovedFromSprintIssues = (\<lambda>sprintId sprintName. []) \<rparr>"

definition examplePayload :: payload where
  "examplePayload =
     \<lparr> payload_boardId = Some ''1'', payload_assignee = Some ''All'',
       payload_teamSize = Some 5, payload_expand = False \<rparr>"

definition examplePayloadAlice :: payload where
  "examplePayloadAlice =
     \<lparr> payload_boardId = Some ''1'', payload_assignee = Some ''Alice'',
       payload_teamSize = Some 5, payload_expand = False \<rparr>"

text \<open>A baseline that holds one entry only.\<close>

definition exampleStaleBaseline :: baseline where
  "exampleStaleBaseline = newBaseline exampleEnv ''42'' [exampleTask]"






text \<open>A sprint with the plain task only, and a baseline taken when the task was estimated at 2h.\<close>

definition exampleEnvOneTask :: env where
  "exampleEnvOneTask = exampleEnv\<lparr> getSprintIssues := (\<lambda>sprintId. Inr [exampleTask]) \<rparr>"

definition exampleOldBaseline :: baseline where
  "exampleOldBaseline =
     newBaseline exampleEnv ''42'' [exampleTask\<lparr> timeoriginalestimate := Some 7200 \<rparr>]"

text \<open>
  A sprint that changes its scope: at the start it holds the four example issues and a
  task of 4h; later that task has left the sprint and a task of 2h, created on the
  second day, has joined.
\<close>

definition exampleLeaving :: issue where
  "exampleLeaving =
     exampleIssue ''P-8'' ''Alice'' ''Task'' False None 0 (Some 14400) (Some 14400) None"

definition exampleJoined :: issue where
  "exampleJoined =
     (exampleIssue ''P-9'' ''Bob'' ''Task'' False None 0 (Some 7200) (Some 7200) None)
       \<lparr> created := 1704190000000 \<rparr>"


definition exampleIssuesNow :: "issue list" where
  "exampleIssuesNow = [exampleParent, exampleSub1, exampleSub2, exampleTask, exampleJoined]"


definition exampleEnvNow :: env where
  "exampleEnvNow =
     exampleEnv\<lparr> getSprintIssues := (\<lambda>sprintId. Inr exampleIssuesNow),
                 getRemovedFromSprintIssues := (\<lambda>sprintId sprintName. [exampleLeaving]) \<rparr>"

text \<open>The baseline of the four example issues, taken when the sprint started.\<close>

definition exampleStartBaseline :: baseline where
  "exampleStartBaseline = newBaseline (exampleEnv\<lparr> now := 1704067200000 \<rparr>) ''42'' exampleIssues"

text \<open>A storage whose reads throw, and one whose writes throw.\<close>

definition exampleEnvNoRead :: env where
  "exampleEnvNoRead = exampleEnv\<lparr> storageGetFails := True \<rparr>"

definition exampleEnvNoWrite :: env where
  "exampleEnvNoWrite = exampleEnv\<lparr> storageSetFails := True \<rparr>"

definition exampleEnvOneTaskNoRead :: env where
  "exampleEnvOneTaskNoRead = exampleEnvOneTask\<lparr> storageGetFails := True \<rparr>"

definition exampleBurndown :: burndown_data where
  "exampleBurndown =
     burndownFrom exampleEnv examplePayload exampleSprint exampleIssues
       (newBaseline exampleEnv ''42'' exampleIssues)"


section \<open>Properties\<close>

subsection \<open>Effective totals\<close>

lemma sumOver_eq: "sumOver val subs = sum_list (map val subs)"
proof -
  have "fold (\<lambda>sub acc. acc + val sub) subs a = a + sum_list (map val subs)" for a
    by (induction subs arbitrary: a) auto
  then show ?thesis by (simp add: sumOver_def)
qed

lemma addSubtask_byParent:
  "subtasksByParent (fold addSubtask xs m) k =
     (if presentSubtasksOf xs k = [] then subtasksByParent m k
      else Some ((case subtasksByParent m k of None \<Rightarrow> [] | Some subs \<Rightarrow> subs)
                 @ presentSubtasksOf xs k))"
proof (induction xs arbitrary: m)
  case Nil
  then show ?case by (simp add: presentSubtasksOf_def)
next
  case (Cons x xs)
  show ?case
    by (simp add: Cons.IH) (auto simp: addSubtask_def presentSubtasksOf_def split: option.splits)
qed

lemma addSubtask_subtaskKeys:
  "subtaskKeys (fold addSubtask xs m) = subtaskKeys m \<union> key ` {s \<in> set xs. isPresentSubtask s}"
proof (induction xs arbitrary: m)
  case Nil
  then show ?case by simp
next
  case (Cons x xs)
  show ?case
    by (simp add: Cons.IH)
       (auto simp: addSubtask_def isPresentSubtask_def truthy_def split: option.splits)
qed

lemma addSubtask_parentKeys:
  "parentKeys (fold addSubtask xs m) = parentKeys m \<union> {k. presentSubtasksOf xs k \<noteq> []}"
proof (induction xs arbitrary: m)
  case Nil
  then show ?case by (simp add: presentSubtasksOf_def)
next
  case (Cons x xs)
  show ?case
    by (simp add: Cons.IH)
       (auto simp: addSubtask_def presentSubtasksOf_def split: option.splits)
qed

lemma markParent_fold:
  "subtasksByParent (fold markParent xs m) = subtasksByParent m"
  "subtaskKeys (fold markParent xs m) = subtaskKeys m"
  "parentKeys (fold markParent xs m) = parentKeys m \<union> key ` {p \<in> set xs. isParentWithSubtasks p}"
  by (induction xs arbitrary: m) (auto simp: markParent_def)

lemma buildSubtaskMap_byParent:
  "subtasksByParent (buildSubtaskMap issues) k =
     (if presentSubtasksOf issues k = [] then None else Some (presentSubtasksOf issues k))"
  by (simp add: buildSubtaskMap_def markParent_fold addSubtask_byParent)

lemma buildSubtaskMap_subtaskKeys:
  "subtaskKeys (buildSubtaskMap issues) = key ` {s \<in> set issues. isPresentSubtask s}"
  by (simp add: buildSubtaskMap_def markParent_fold addSubtask_subtaskKeys)

lemma buildSubtaskMap_parentKeys:
  "parentKeys (buildSubtaskMap issues) =
     {k. presentSubtasksOf issues k \<noteq> []} \<union> key ` {p \<in> set issues. isParentWithSubtasks p}"
  by (simp add: buildSubtaskMap_def markParent_fold addSubtask_parentKeys)

lemma fold_effectiveStep:
  "fold (effectiveStep m val) xs a = a + sum_list (map (\<lambda>i. effectiveStep m val i 0) xs)"
proof (induction xs arbitrary: a)
  case Nil
  then show ?case by simp
next
  case (Cons x xs)
  have "effectiveStep m val x a = a + effectiveStep m val x 0"
    by (simp add: effectiveStep_def split: option.splits)
  then show ?case by (simp add: Cons.IH)
qed

lemma distinct_key_eq:
  "distinct (map key issues) \<Longrightarrow> i \<in> set issues \<Longrightarrow> s \<in> set issues \<Longrightarrow> key s = key i
     \<Longrightarrow> s = i"
  by (meson distinct_map inj_onD)

lemma effectiveStep_effectiveValue:
  assumes d: "distinct (map key issues)" and i: "i \<in> set issues"
  shows "effectiveStep (buildSubtaskMap issues) val i 0 = effectiveValue val issues i"
proof -
  have sk: "key i \<in> subtaskKeys (buildSubtaskMap issues) \<longleftrightarrow> isPresentSubtask i"
    using distinct_key_eq [OF d i] i by (auto simp: buildSubtaskMap_subtaskKeys)
  have pk: "key i \<in> parentKeys (buildSubtaskMap issues) \<longleftrightarrow>
              presentSubtasksOf issues (key i) \<noteq> [] \<or> isParentWithSubtasks i"
    using distinct_key_eq [OF d i] i by (auto simp: buildSubtaskMap_parentKeys)
  show ?thesis
    by (simp add: effectiveStep_def effectiveValue_def sk pk buildSubtaskMap_byParent sumOver_eq)
qed

lemma computeEffective_rule:
  assumes "distinct (map key issues)"
  shows "computeEffective val issues = sum_list (map (effectiveValue val issues) issues)"
proof -
  have eq: "map (\<lambda>i. effectiveStep (buildSubtaskMap issues) val i 0) issues
        = map (effectiveValue val issues) issues"
    by (rule map_cong [OF refl]) (rule effectiveStep_effectiveValue [OF assms])
  show ?thesis unfolding computeEffective_def fold_effectiveStep eq by simp
qed

lemma exampleIssue_fields:
  "key (exampleIssue k who typeName sub parent subs oe rest spent) = k"
  "assignee_displayName (exampleIssue k who typeName sub parent subs oe rest spent) = Some who"
  "issuetype_subtask (exampleIssue k who typeName sub parent subs oe rest spent) = sub"
  "issuetype_name (exampleIssue k who typeName sub parent subs oe rest spent) = Some typeName"
  "timeoriginalestimate (exampleIssue k who typeName sub parent subs oe rest spent) = oe"
  "timeestimate (exampleIssue k who typeName sub parent subs oe rest spent) = rest"
  "timespent (exampleIssue k who typeName sub parent subs oe rest spent) = spent"
  "parent_key (exampleIssue k who typeName sub parent subs oe rest spent) = parent"
  "subtasks_length (exampleIssue k who typeName sub parent subs oe rest spent) = subs"
  "status_name (exampleIssue k who typeName sub parent subs oe rest spent) = Some ''In Progress''"
  "created (exampleIssue k who typeName sub parent subs oe rest spent) = 1703000000000"
  "summary (exampleIssue k who typeName sub parent subs oe rest spent) = ''work''"
  by (simp_all add: exampleIssue_def)

lemma example_kinds:
  "isSubtaskIssue exampleParent = False" "isParentWithSubtasks exampleParent = True"
  "isSubtaskIssue exampleSub1 = True" "isParentWithSubtasks exampleSub1 = False"
  "isSubtaskIssue exampleSub2 = True" "isParentWithSubtasks exampleSub2 = False"
  "isSubtaskIssue exampleTask = False" "isParentWithSubtasks exampleTask = False"
  by (simp_all add: isSubtaskIssue_def isParentWithSubtasks_def exampleParent_def exampleSub1_def
      exampleSub2_def exampleTask_def exampleIssue_fields orEmpty_def toLowerCase_def
      toLowerChar_def)

lemma example_keys:
  "key exampleParent = ''P-1''" "key exampleSub1 = ''P-2''" "key exampleSub2 = ''P-3''"
  "key exampleTask = ''P-4''"
  "parent_key exampleParent = None" "parent_key exampleSub1 = Some ''P-1''"
  "parent_key exampleSub2 = Some ''P-1''" "parent_key exampleTask = None"
  "assignee_displayName exampleParent = Some ''Alice''"
  "assignee_displayName exampleSub1 = Some ''Alice''"
  "assignee_displayName exampleSub2 = Some ''Bob''"
  "assignee_displayName exampleTask = Some ''Bob''"
  by (simp_all add: exampleParent_def exampleSub1_def exampleSub2_def exampleTask_def
      exampleIssue_fields)

lemma example_hours:
  "secondsToHours (timeestimate exampleParent) = 6"
  "secondsToHours (timeestimate exampleSub1) = 3"
  "secondsToHours (timeestimate exampleSub2) = 3"
  "secondsToHours (timeestimate exampleTask) = 3"
  "secondsToHours (timeoriginalestimate exampleParent) = 6"
  "secondsToHours (timeoriginalestimate exampleSub1) = 3"
  "secondsToHours (timeoriginalestimate exampleSub2) = 3"
  "secondsToHours (timeoriginalestimate exampleTask) = 5"
  "secondsToHours (timespent exampleParent) = 0"
  "secondsToHours (timespent exampleSub1) = 0"
  "secondsToHours (timespent exampleSub2) = 0"
  "secondsToHours (timespent exampleTask) = 3"
  by (simp_all add: exampleParent_def exampleSub1_def exampleSub2_def exampleTask_def
      exampleIssue_fields secondsToHours_def Math_round_def)

lemma example_effective:
  "computeEffective val [exampleParent, exampleSub1] = val exampleSub1"
  "computeEffective val [exampleParent, exampleSub1, exampleSub2, exampleTask]
     = val exampleSub1 + val exampleSub2 + val exampleTask"
  by (simp_all add: computeEffective_def buildSubtaskMap_def addSubtask_def markParent_def
      effectiveStep_def sumOver_def example_kinds example_keys)

lemma parent_and_one_subtask:
  assumes s1: "isPresentSubtask s1" and p: "\<not> isPresentSubtask p"
    and par: "parent_key s1 = Some (key p)" and ne: "key s1 \<noteq> key p"
    and a1: "assignee_displayName s1 = Some a" and a2: "assignee_displayName s2 \<noteq> Some a"
    and ap: "assignee_displayName p = Some a"
  shows "computeEffective val (filterByAssignee a [p, s1, s2]) = val s1"
proof -
  have f: "filterByAssignee a [p, s1, s2] = [p, s1]"
    using a1 a2 ap by (simp add: filterByAssignee_def)
  have k: "key p \<noteq> []"
    using s1 par by (simp add: isPresentSubtask_def truthy_def)
  have sub: "isSubtaskIssue s1"
    using s1 by (simp add: isPresentSubtask_def)
  have np: "\<not> (isSubtaskIssue p \<and> parent_key p = Some (key p))"
    using p k by (auto simp: isPresentSubtask_def truthy_def)
  have pres: "presentSubtasksOf [p, s1] (key p) = [s1]"
    using sub par k np by (auto simp: presentSubtasksOf_def)
  have d: "distinct (map key [p, s1])"
    using ne by auto
  show ?thesis
    unfolding f computeEffective_rule [OF d]
    using s1 p pres by (simp add: effectiveValue_def)
qed

lemma subtask_without_parent:
  assumes s2: "isPresentSubtask s2"
    and a2: "assignee_displayName s2 = Some a" and a1: "assignee_displayName s1 \<noteq> Some a"
    and ap: "assignee_displayName p \<noteq> Some a"
  shows "computeEffective val (filterByAssignee a [p, s1, s2]) = 0"
proof -
  have f: "filterByAssignee a [p, s1, s2] = [s2]"
    using a1 a2 ap by (simp add: filterByAssignee_def)
  have d: "distinct (map key [s2])" by simp
  show ?thesis
    unfolding f computeEffective_rule [OF d] using s2 by (simp add: effectiveValue_def)
qed

lemma example_present:
  "isPresentSubtask exampleParent = False" "isPresentSubtask exampleSub1 = True"
  "isPresentSubtask exampleSub2 = True" "isPresentSubtask exampleTask = False"
  by (simp_all add: isPresentSubtask_def example_kinds example_keys truthy_def)

text \<open>
  C1 (as amended). Over a working set with distinct keys, \<open>computeEffectiveRemaining\<close> is the
  sum of the per-issue contributions of the aggregation rule: a subtask (an issue of a
  subtask type that names its parent) contributes nothing; a parent with subtasks present
  in the working set contributes the sum of the remaining hours of exactly those; a parent
  with none present contributes nothing; a plain issue contributes its own remaining
  hours. For a parent \<open>p\<close> with the subtasks \<open>s1\<close> and \<open>s2\<close>, the working set filtered to an
  assignee who owns the parent and \<open>s1\<close> but not \<open>s2\<close> has the remaining hours of \<open>s1\<close> as its
  effective remaining, whatever the parent's raw field and \<open>s2\<close> say: 3h for two subtasks of
  3h each.
\<close>

theorem computeEffectiveRemaining_aggregation:
  "(distinct (map key issues) \<longrightarrow>
      computeEffectiveRemaining issues
        = (\<Sum>i\<leftarrow>issues. effectiveValue (\<lambda>i. secondsToHours (timeestimate i)) issues i))
   \<and> (isPresentSubtask s1 \<and> \<not> isPresentSubtask p
        \<and> parent_key s1 = Some (key p) \<and> key s1 \<noteq> key p
        \<and> assignee_displayName p = Some a \<and> assignee_displayName s1 = Some a
        \<and> assignee_displayName s2 \<noteq> Some a \<longrightarrow>
      computeEffectiveRemaining (filterByAssignee a [p, s1, s2])
        = secondsToHours (timeestimate s1))"
proof (intro conjI impI)
  assume "distinct (map key issues)"
  then show "computeEffectiveRemaining issues
        = (\<Sum>i\<leftarrow>issues. effectiveValue (\<lambda>i. secondsToHours (timeestimate i)) issues i)"
    unfolding computeEffectiveRemaining_def by (rule computeEffective_rule)
next
  assume "isPresentSubtask s1 \<and> \<not> isPresentSubtask p
        \<and> parent_key s1 = Some (key p) \<and> key s1 \<noteq> key p
        \<and> assignee_displayName p = Some a \<and> assignee_displayName s1 = Some a
        \<and> assignee_displayName s2 \<noteq> Some a"
  then show "computeEffectiveRemaining (filterByAssignee a [p, s1, s2])
        = secondsToHours (timeestimate s1)"
    unfolding computeEffectiveRemaining_def by (simp add: parent_and_one_subtask)
qed

theorem computeEffectiveRemaining_aggregation_witness:
  "distinct (map key exampleIssues)
   \<and> computeEffectiveRemaining exampleIssues
       = (\<Sum>i\<leftarrow>exampleIssues.
            effectiveValue (\<lambda>i. secondsToHours (timeestimate i)) exampleIssues i)
   \<and> computeEffectiveRemaining exampleIssues = 9
   \<and> isPresentSubtask exampleSub1 \<and> \<not> isPresentSubtask exampleParent
   \<and> parent_key exampleSub1 = Some (key exampleParent) \<and> key exampleSub1 \<noteq> key exampleParent
   \<and> assignee_displayName exampleParent = Some ''Alice''
   \<and> assignee_displayName exampleSub1 = Some ''Alice''
   \<and> assignee_displayName exampleSub2 \<noteq> Some ''Alice''
   \<and> filterByAssignee ''Alice'' [exampleParent, exampleSub1, exampleSub2]
        = [exampleParent, exampleSub1]
   \<and> computeEffectiveRemaining (filterByAssignee ''Alice'' [exampleParent, exampleSub1, exampleSub2])
        = 3
   \<and> secondsToHours (timeestimate exampleParent) = 6
   \<and> secondsToHours (timeestimate exampleSub1) = 3
   \<and> secondsToHours (timeestimate exampleSub2) = 3
   \<and> computeEffectiveRemaining [exampleParent, exampleSub1, exampleSub2] = 6"
proof -
  have d: "distinct (map key exampleIssues)"
    by (simp add: exampleIssues_def example_keys)
  have v: "computeEffectiveRemaining exampleIssues = 9"
    by (simp add: exampleIssues_def computeEffectiveRemaining_def example_effective example_hours)
  have h: "isPresentSubtask exampleSub1 \<and> \<not> isPresentSubtask exampleParent
     \<and> parent_key exampleSub1 = Some (key exampleParent) \<and> key exampleSub1 \<noteq> key exampleParent
     \<and> assignee_displayName exampleParent = Some ''Alice''
     \<and> assignee_displayName exampleSub1 = Some ''Alice''
     \<and> assignee_displayName exampleSub2 \<noteq> Some ''Alice''"
    by (simp add: example_present example_keys)
  have f: "filterByAssignee ''Alice'' [exampleParent, exampleSub1, exampleSub2]
        = [exampleParent, exampleSub1]"
    by (simp add: filterByAssignee_def example_keys)
  have u: "computeEffectiveRemaining [exampleParent, exampleSub1, exampleSub2] = 6"
    by (simp add: computeEffectiveRemaining_def computeEffective_def buildSubtaskMap_def
        addSubtask_def markParent_def effectiveStep_def sumOver_def example_kinds example_keys
        example_hours)
  from computeEffectiveRemaining_aggregation
         [of exampleIssues exampleSub1 exampleParent "''Alice''" exampleSub2] d v h f u
  show ?thesis
    by (simp add: example_hours)
qed

text \<open>
  C1 as stated does not hold for an assignee who owns one of the two subtasks but not
  their parent: the filter leaves the subtask alone in the working set, where it
  contributes nothing on its own, so the effective remaining for Bob is 0h and not 3h.
\<close>

theorem computeEffectiveRemaining_aggregation_counterexample:
  "isPresentSubtask exampleSub1 \<and> isPresentSubtask exampleSub2
   \<and> parent_key exampleSub1 = Some (key exampleParent)
   \<and> parent_key exampleSub2 = Some (key exampleParent)
   \<and> secondsToHours (timeestimate exampleSub1) = 3
   \<and> secondsToHours (timeestimate exampleSub2) = 3
   \<and> filterByAssignee ''Bob'' [exampleParent, exampleSub1, exampleSub2] = [exampleSub2]
   \<and> computeEffectiveRemaining (filterByAssignee ''Bob'' [exampleParent, exampleSub1, exampleSub2])
        = 0"
proof -
  have f: "filterByAssignee ''Bob'' [exampleParent, exampleSub1, exampleSub2] = [exampleSub2]"
    by (simp add: filterByAssignee_def example_keys)
  have z: "computeEffectiveRemaining [exampleSub2] = 0"
    by (simp add: computeEffectiveRemaining_def computeEffective_def buildSubtaskMap_def
        addSubtask_def markParent_def effectiveStep_def example_kinds example_keys)
  show ?thesis
    by (simp add: f z example_present example_keys example_hours)
qed

subsection \<open>The loop over the days\<close>

lemma stateOn_shift:
  "stateOn c (cur + msPerDay) (dayState c cur s) k = stateOn c cur s (Suc k)"
  by (induction k) (simp_all add: algebra_simps)

lemma loop_Cons:
  "cur \<le> endDate c \<Longrightarrow>
     dataPointsLoop c cur s =
       dayPoint c cur (dayState c cur s) # dataPointsLoop c (cur + msPerDay) (dayState c cur s)"
  by (subst dataPointsLoop.simps) simp

lemma loop_Nil: "\<not> cur \<le> endDate c \<Longrightarrow> dataPointsLoop c cur s = []"
  by (subst dataPointsLoop.simps) simp

lemma loop_length:
  "k < length (dataPointsLoop c cur s) \<longleftrightarrow> cur + int k * msPerDay \<le> endDate c"
proof (induction k arbitrary: cur s)
  case 0
  then show ?case by (cases "cur \<le> endDate c") (simp_all add: loop_Cons loop_Nil)
next
  case (Suc k)
  show ?case
  proof (cases "cur \<le> endDate c")
    case True
    then show ?thesis using Suc.IH [of "cur + msPerDay" "dayState c cur s"]
      by (simp add: loop_Cons algebra_simps)
  next
    case False
    then show ?thesis by (simp add: loop_Nil msPerDay_def)
  qed
qed

lemma loop_nth:
  "k < length (dataPointsLoop c cur s) \<Longrightarrow>
     dataPointsLoop c cur s ! k = dayPoint c (cur + int k * msPerDay) (stateOn c cur s k)"
proof (induction k arbitrary: cur s)
  case 0
  then show ?case by (cases "cur \<le> endDate c") (simp_all add: loop_Cons loop_Nil)
next
  case (Suc k)
  show ?case
  proof (cases "cur \<le> endDate c")
    case True
    with Suc.prems have "k < length (dataPointsLoop c (cur + msPerDay) (dayState c cur s))"
      by (simp add: loop_Cons)
    from Suc.IH [OF this]
    have "dataPointsLoop c (cur + msPerDay) (dayState c cur s) ! k =
            dayPoint c (cur + msPerDay + int k * msPerDay) (stateOn c cur s (Suc k))"
      by (simp only: stateOn_shift)
    moreover have "cur + msPerDay + int k * msPerDay = cur + int (Suc k) * msPerDay"
      by (simp add: algebra_simps)
    ultimately show ?thesis using True by (simp only: loop_Cons nth_Cons_Suc)
  next
    case False
    with Suc.prems show ?thesis by (simp add: loop_Nil)
  qed
qed

lemma generate_nth:
  "Suc k < length (generateDataPoints c) \<Longrightarrow>
     generateDataPoints c ! Suc k = dayPoint c (dayOf c k) (stateOn c (startDate c) (initialState c) k)"
  by (simp add: generateDataPoints_def loop_nth dayOf_def initialState_def)

lemma generate_length:
  "Suc k < length (generateDataPoints c) \<longleftrightarrow> dayOf c k \<le> endDate c"
  by (simp add: generateDataPoints_def loop_length dayOf_def)

lemma setHoursZero_mono: "a \<le> b \<Longrightarrow> setHoursZero a \<le> setHoursZero b"
proof -
  assume "a \<le> b"
  then have "a div msPerDay \<le> b div msPerDay"
    by (simp add: msPerDay_def zdiv_mono1)
  moreover have "setHoursZero t = (t div msPerDay) * msPerDay" for t
    by (simp add: setHoursZero_def minus_mod_eq_div_mult)
  ultimately show ?thesis by (simp add: msPerDay_def)
qed

lemma dayOf_mono: "j \<le> k \<Longrightarrow> dayOf c j \<le> dayOf c k"
  by (simp add: dayOf_def msPerDay_def)



lemma stateOn_cumulativeLogged:
  "setHoursZero (dayOf c k) \<le> today c \<Longrightarrow>
     cumulativeLoggedSoFar (stateOn c (startDate c) (initialState c) k) = loggedUpTo c (Suc k)"
proof (induction k)
  case 0
  then show ?case
    by (simp add: dayState_def Let_def initialState_def dayOf_def loggedOn_def)
next
  case (Suc k)
  have "setHoursZero (dayOf c k) \<le> setHoursZero (dayOf c (Suc k))"
    by (rule setHoursZero_mono) (simp add: dayOf_mono)
  with Suc.prems have "setHoursZero (dayOf c k) \<le> today c" by simp
  from Suc.IH [OF this] Suc.prems show ?case
    by (simp add: dayState_def Let_def dayOf_def loggedOn_def)
qed


lemma floor_half: "\<lfloor>(of_int z :: real) + 1 / 2\<rfloor> = z"
  by (rule floor_unique) simp_all

lemma round10_of_int: "round10 (of_int z) = of_int z"
proof -
  have "\<lfloor>(of_int (z * 10) :: real) + 1 / 2\<rfloor> = z * 10"
    by (rule floor_half)
  then show ?thesis by (simp add: round10_def Math_round_def)
qed

lemma round10_of_nat: "round10 (real n) = real n"
  using round10_of_int [of "int n"] by simp

lemma round10_mono: "x \<le> y \<Longrightarrow> round10 x \<le> round10 y"
  by (simp add: round10_def Math_round_def divide_right_mono floor_mono)















subsection \<open>The examples, evaluated\<close>


lemma exampleEnv_fields:
  "now exampleEnv = 1704362400000"
  "storageGetFails exampleEnv = False"
  "storageSetFails exampleEnv = False"
  "storageDeleteFails exampleEnv = False"
  "getActiveSprint exampleEnv ''1'' = Inr (Some exampleSprint)"
  "getSprintIssues exampleEnv s = Inr exampleIssues"
  "getIssueChangelog exampleEnv k = []"
  "getIssueWorklogs exampleEnv k = []"
  "getRemovedFromSprintIssues exampleEnv s n = []"
  by (simp_all add: exampleEnv_def)

lemma exampleSprint_fields:
  "sprint_id exampleSprint = ''42''"
  "sprint_name exampleSprint = ''Sprint 7''"
  "sprint_startDate exampleSprint = 1704067200000"
  "sprint_endDate exampleSprint = 1705017600000"
  by (simp_all add: exampleSprint_def)

lemma examplePayload_fields:
  "payload_boardId examplePayload = Some ''1''"
  "payload_assignee examplePayload = Some ''All''"
  "payload_teamSize examplePayload = Some 5"
  by (simp_all add: examplePayload_def)

lemma example_getBurndownData:
  "getBurndownData exampleEnv Map.empty examplePayload =
     (Inr (Success exampleBurndown),
      [baselineKey ''42'' \<mapsto> StoredBaseline (newBaseline exampleEnv ''42'' exampleIssues)])"
  by (simp add: getBurndownData_def getBurndownData_try_def catchAsFailure_def
      getOrCreateBaseline_def getSprintBaseline_def storage_get_def saveSprintBaseline_def
      storage_set_def exampleEnv_fields exampleSprint_fields examplePayload_fields truthy_def
      orEmpty_def exampleBurndown_def Let_def)

lemma example_countWorkingDays: "countWorkingDays 1704067200000 1705017600000 = 10"
  by (simp add: countWorkingDays_def countWorkingDaysLoop.simps isWorkingDay_def getDay_def
      msPerDay_def WORKING_DAYS_DEFAULT_def)


lemma exampleBurndown_points:
  "data_dataPoints exampleBurndown =
     generateDataPoints (seriesInput exampleEnv examplePayload exampleSprint exampleIssues
       (newBaseline exampleEnv ''42'' exampleIssues))"
  by (simp add: exampleBurndown_def burndownFrom_def Let_def)

lemma seriesInput_fields:
  "startDate (seriesInput e p sprint allIssues b) = sprint_startDate sprint"
  "endDate (seriesInput e p sprint allIssues b) = sprint_endDate sprint"
  "today (seriesInput e p sprint allIssues b) = setHoursZero (now e)"
  "maxCapacity (seriesInput e p sprint allIssues b) = capacityFor p sprint allIssues"
  "workingDays (seriesInput e p sprint allIssues b)
     = countWorkingDays (sprint_startDate sprint) (sprint_endDate sprint)"
  "totalOriginalEstimate (seriesInput e p sprint allIssues b)
     = totalOriginalEstimateFor p allIssues b"
  by (simp_all add: seriesInput_def Let_def)

text \<open>
  The capacity that \<open>getBurndownData\<close> hands to the loop is always
  \<open>workingDays * 8 * teamSize\<close>, for the team size of the request.
\<close>

lemma seriesInput_capacity:
  "maxCapacity (seriesInput e p sprint allIssues b)
     = real (workingDays (seriesInput e p sprint allIssues b) * HOURS_PER_DAY
             * teamSizeFor p allIssues)"
  by (simp only: seriesInput_fields capacityFor_def)





subsection \<open>Remaining work\<close>




subsection \<open>Ideal line\<close>






subsection \<open>The reply of \<open>getBurndownData\<close>\<close>

lemma getBurndownData_Success:
  assumes "fst (getBurndownData e st p) = Inr (Success d)"
  obtains sprint allIssues b where
    "truthy (payload_boardId p)"
    "getActiveSprint e (orEmpty (payload_boardId p)) = Inr (Some sprint)"
    "getSprintIssues e (sprint_id sprint) = Inr allIssues"
    "d = burndownFrom e p sprint allIssues b"
  using assms
  by (auto simp: getBurndownData_def getBurndownData_try_def catchAsFailure_def
      split: if_splits sum.splits option.splits prod.splits)

lemma burndownFrom_fields:
  "data_dataPoints (burndownFrom e p sprint allIssues b)
     = generateDataPoints (seriesInput e p sprint allIssues b)"
  "data_teamSize (burndownFrom e p sprint allIssues b) = teamSizeFor p allIssues"
  "data_workingDays (burndownFrom e p sprint allIssues b)
     = countWorkingDays (sprint_startDate sprint) (sprint_endDate sprint)"
  "data_maxCapacity (burndownFrom e p sprint allIssues b)
     = round10 (capacityFor p sprint allIssues)"
  by (simp_all add: burndownFrom_def Let_def)

lemma setHoursZero_le_iff: "setHoursZero a \<le> setHoursZero b \<longleftrightarrow> isoDate a \<le> isoDate b"
proof -
  have "setHoursZero t = isoDate t * msPerDay" for t
    by (simp add: setHoursZero_def isoDate_def minus_mod_eq_div_mult)
  then show ?thesis by (simp add: msPerDay_def)
qed

lemma generate_set:
  assumes "pt \<in> set (generateDataPoints c)"
  obtains "pt = startPoint c"
  | k where "Suc k < length (generateDataPoints c)"
      "pt = dayPoint c (dayOf c k) (stateOn c (startDate c) (initialState c) k)"
proof -
  from assms obtain n where n: "n < length (generateDataPoints c)" "pt = generateDataPoints c ! n"
    by (auto simp: in_set_conv_nth)
  show ?thesis
  proof (cases n)
    case 0
    with n have "pt = startPoint c" by (simp add: generateDataPoints_def)
    then show ?thesis by (rule that(1))
  next
    case (Suc k)
    with n show ?thesis by (intro that(2) [of k]) (simp_all add: generate_nth)
  qed
qed

lemma exampleBurndown_series:
  "length (data_dataPoints exampleBurndown) = 13"
  "point_date (data_dataPoints exampleBurndown ! 12) = DateStr 19734"
  "point_date (data_dataPoints exampleBurndown ! 2) = DateStr 19724"
proof -
  let ?c = "seriesInput exampleEnv examplePayload exampleSprint exampleIssues
              (newBaseline exampleEnv ''42'' exampleIssues)"
  have len: "Suc 11 < length (generateDataPoints ?c)"
    by (simp only: generate_length)
       (simp add: dayOf_def seriesInput_fields exampleSprint_fields msPerDay_def)
  have nolonger: "\<not> Suc 12 < length (generateDataPoints ?c)"
    by (simp only: generate_length)
       (simp add: dayOf_def seriesInput_fields exampleSprint_fields msPerDay_def)
  from len nolonger show "length (data_dataPoints exampleBurndown) = 13"
    by (simp add: exampleBurndown_points)
  have "point_date (generateDataPoints ?c ! Suc 11) = DateStr 19734"
    by (simp only: generate_nth [OF len])
       (simp add: dayPoint_def Let_def dayOf_def seriesInput_fields exampleSprint_fields
          msPerDay_def isoDate_def)
  then show "point_date (data_dataPoints exampleBurndown ! 12) = DateStr 19734"
    by (simp add: exampleBurndown_points)
  from len have len1: "Suc 1 < length (generateDataPoints ?c)" by simp
  have "point_date (generateDataPoints ?c ! Suc 1) = DateStr 19724"
    by (simp only: generate_nth [OF len1])
       (simp add: dayPoint_def Let_def dayOf_def seriesInput_fields exampleSprint_fields
          msPerDay_def isoDate_def)
  then show "point_date (data_dataPoints exampleBurndown ! 2) = DateStr 19724"
    by (simp add: exampleBurndown_points numeral_2_eq_2)
qed

lemma example_getBurndownData_Alice:
  "fst (getBurndownData exampleEnv Map.empty examplePayloadAlice)
     = Inr (Success (burndownFrom exampleEnv examplePayloadAlice exampleSprint exampleIssues
         (newBaseline exampleEnv ''42'' exampleIssues)))"
  by (simp add: getBurndownData_def getBurndownData_try_def catchAsFailure_def
      getOrCreateBaseline_def getSprintBaseline_def storage_get_def saveSprintBaseline_def
      storage_set_def exampleEnv_fields exampleSprint_fields examplePayloadAlice_def truthy_def
      orEmpty_def Let_def)

subsection \<open>Future days\<close>

text \<open>
  C6. In a successful reply of \<open>getBurndownData\<close>, every data point that carries a date
  strictly after today (the day of \<open>now\<close>) has \<open>null\<close> for the remaining work and for the
  cumulative logged hours (fields \<open>remaining\<close>, \<open>totalRemaining\<close>, \<open>timeLogged\<close>,
  \<open>cumulativeLogged\<close>, \<open>dayLogged\<close>), and every point dated today or earlier has numbers
  there. The start point carries the label \<open>'start'\<close> instead of a date.
\<close>

theorem null_future:
  assumes ok: "fst (getBurndownData e st p) = Inr (Success d)"
    and pt: "pt \<in> set (data_dataPoints d)"
    and day: "point_date pt = DateStr day"
  shows "(isoDate (now e) < day \<longrightarrow>
            remaining pt = None \<and> cumulativeLogged pt = None
            \<and> totalRemaining pt = None \<and> timeLogged pt = None \<and> dayLogged pt = None)
       \<and> (day \<le> isoDate (now e) \<longrightarrow>
            remaining pt \<noteq> None \<and> cumulativeLogged pt \<noteq> None
            \<and> totalRemaining pt \<noteq> None \<and> timeLogged pt \<noteq> None \<and> dayLogged pt \<noteq> None)"
proof -
  from ok obtain sprint allIssues b where d: "d = burndownFrom e p sprint allIssues b"
    by (rule getBurndownData_Success)
  let ?c = "seriesInput e p sprint allIssues b"
  from pt d have "pt \<in> set (generateDataPoints ?c)" by (simp add: burndownFrom_fields)
  then show ?thesis
  proof (cases rule: generate_set)
    case 1
    with day show ?thesis by (simp add: startPoint_def)
  next
    case (2 k)
    have t: "today ?c = setHoursZero (now e)" by (simp add: seriesInput_fields)
    from 2 day have "day = isoDate (dayOf ?c k)" by (simp add: dayPoint_def Let_def)
    then show ?thesis
      by (simp only: 2) (auto simp: dayPoint_def Let_def t setHoursZero_le_iff)
  qed
qed

theorem null_future_witness:
  "fst (getBurndownData exampleEnv Map.empty examplePayload) = Inr (Success exampleBurndown)
   \<and> data_dataPoints exampleBurndown ! 12 \<in> set (data_dataPoints exampleBurndown)
   \<and> point_date (data_dataPoints exampleBurndown ! 12) = DateStr 19734
   \<and> isoDate (now exampleEnv) < 19734
   \<and> remaining (data_dataPoints exampleBurndown ! 12) = None
   \<and> cumulativeLogged (data_dataPoints exampleBurndown ! 12) = None
   \<and> data_dataPoints exampleBurndown ! 2 \<in> set (data_dataPoints exampleBurndown)
   \<and> point_date (data_dataPoints exampleBurndown ! 2) = DateStr 19724
   \<and> 19724 \<le> isoDate (now exampleEnv)
   \<and> remaining (data_dataPoints exampleBurndown ! 2) \<noteq> None
   \<and> cumulativeLogged (data_dataPoints exampleBurndown ! 2) \<noteq> None"
proof -
  have ok: "fst (getBurndownData exampleEnv Map.empty examplePayload)
            = Inr (Success exampleBurndown)"
    by (simp add: example_getBurndownData)
  have m12: "data_dataPoints exampleBurndown ! 12 \<in> set (data_dataPoints exampleBurndown)"
    by (rule nth_mem) (simp add: exampleBurndown_series)
  have m2: "data_dataPoints exampleBurndown ! 2 \<in> set (data_dataPoints exampleBurndown)"
    by (rule nth_mem) (simp add: exampleBurndown_series)
  have n: "isoDate (now exampleEnv) = 19726"
    by (simp add: isoDate_def exampleEnv_fields msPerDay_def)
  from null_future [OF ok m12 exampleBurndown_series(2)]
       null_future [OF ok m2 exampleBurndown_series(3)]
  show ?thesis
    using ok m12 m2 by (simp add: n exampleBurndown_series)
qed

subsection \<open>Team size for one assignee\<close>

text \<open>
  C10. When the request names a single assignee (a non-empty value other than \<open>'All'\<close>),
  a successful reply of \<open>getBurndownData\<close> has \<open>teamSize = 1\<close> and
  \<open>maxCapacity = workingDays * 8\<close>, whatever the configured team size and the number of
  assignees in the sprint; the first generation computes the same team size and capacity.
\<close>

theorem single_assignee_teamSize:
  assumes "singleAssignee (payload_assignee p)"
  shows "(fst (getBurndownData e st p) = Inr (Success d) \<longrightarrow>
            data_teamSize d = 1 \<and> data_maxCapacity d = real (data_workingDays d * 8))
       \<and> teamSizeFor_v1 p allIssues = 1
       \<and> capacityFor_v1 p sprint allIssues
           = real (countWorkingDays (sprint_startDate sprint) (sprint_endDate sprint) * 8)"
proof (intro conjI impI)
  assume "fst (getBurndownData e st p) = Inr (Success d)"
  then obtain sprint' allIssues' b where d: "d = burndownFrom e p sprint' allIssues' b"
    by (rule getBurndownData_Success)
  from assms show "data_teamSize d = 1"
    by (simp add: d burndownFrom_fields teamSizeFor_def)
  from assms show "data_maxCapacity d = real (data_workingDays d * 8)"
    by (simp only: d burndownFrom_fields capacityFor_def teamSizeFor_def HOURS_PER_DAY_def
        if_True mult_1_right round10_of_nat)
next
  from assms show "teamSizeFor_v1 p allIssues = 1"
    by (simp add: teamSizeFor_v1_def)
  from assms show "capacityFor_v1 p sprint allIssues
           = real (countWorkingDays (sprint_startDate sprint) (sprint_endDate sprint) * 8)"
    by (simp add: capacityFor_v1_def teamSizeFor_v1_def HOURS_PER_DAY_def)
qed

theorem single_assignee_teamSize_witness:
  "singleAssignee (payload_assignee examplePayloadAlice)
   \<and> fst (getBurndownData exampleEnv Map.empty examplePayloadAlice)
       = Inr (Success (burndownFrom exampleEnv examplePayloadAlice exampleSprint exampleIssues
           (newBaseline exampleEnv ''42'' exampleIssues)))
   \<and> data_teamSize (burndownFrom exampleEnv examplePayloadAlice exampleSprint exampleIssues
           (newBaseline exampleEnv ''42'' exampleIssues)) = 1
   \<and> data_maxCapacity (burndownFrom exampleEnv examplePayloadAlice exampleSprint exampleIssues
           (newBaseline exampleEnv ''42'' exampleIssues)) = 80
   \<and> teamSizeFor_v1 examplePayloadAlice exampleIssues = 1"
proof -
  have s: "singleAssignee (payload_assignee examplePayloadAlice)"
    by (simp add: singleAssignee_def examplePayloadAlice_def truthy_def)
  have w: "data_workingDays (burndownFrom exampleEnv examplePayloadAlice exampleSprint
             exampleIssues (newBaseline exampleEnv ''42'' exampleIssues)) = 10"
    by (simp add: burndownFrom_fields exampleSprint_fields example_countWorkingDays)
  from single_assignee_teamSize [OF s, of exampleEnv Map.empty _ exampleIssues exampleSprint]
       example_getBurndownData_Alice s
  show ?thesis by (simp add: w)
qed

subsection \<open>Baseline repair\<close>

lemma baselineLooksCorrupted_stale:
  "baselineLooksCorrupted b allIssues
     = staleBaseline (length (baseline_issues b)) (length (filter isActiveIssue allIssues))"
  by (simp add: baselineLooksCorrupted_def staleBaseline_def Let_def mult.commute)

text \<open>
  \<open>getSprintBaseline\<close> answers a storage read that throws like a missing baseline;
  \<open>deleteSprintBaseline\<close> swallows a delete that throws; a write that throws in
  \<open>saveSprintBaseline\<close> reaches the \<open>catch\<close> of the resolver.
\<close>

lemma getOrCreateBaseline_cases:
  assumes "st (baselineKey sprintId) = Some (StoredBaseline b)"
  shows "getOrCreateBaseline e st sprintId allIssues =
     (if storageGetFails e then saveSprintBaseline e st sprintId allIssues
      else if baselineLooksCorrupted b allIssues
      then saveSprintBaseline e
             (if storageDeleteFails e then st else st(baselineKey sprintId := None))
             sprintId allIssues
      else (Inr b, st))"
  using assms
  by (simp add: getOrCreateBaseline_def getSprintBaseline_def storage_get_def
      deleteSprintBaseline_def storage_delete_def Let_def)

lemma saveSprintBaseline_cases:
  "saveSprintBaseline e st sprintId allIssues =
     (if storageSetFails e then (Inl (Error ''storage unavailable''), st)
      else (Inr (newBaseline e sprintId allIssues),
            st(baselineKey sprintId \<mapsto> StoredBaseline (newBaseline e sprintId allIssues))))"
  by (simp add: saveSprintBaseline_def storage_set_def Let_def)

lemma getOrCreateBaseline_read_failure:
  assumes "storageGetFails e" and "\<not> storageSetFails e"
  shows "getOrCreateBaseline e st sprintId allIssues =
     (Inr (newBaseline e sprintId allIssues),
      st(baselineKey sprintId \<mapsto> StoredBaseline (newBaseline e sprintId allIssues)))"
  using assms
  by (simp add: getOrCreateBaseline_def getSprintBaseline_def storage_get_def
      saveSprintBaseline_def storage_set_def Let_def)

text \<open>
  C4 (as amended). Burndown data is requested for the board's active sprint, its issues
  can be fetched and a baseline is stored for the sprint. If the storage read returns
  it, the baseline is deleted and regenerated from the current issues exactly when it
  has fewer entries than 30% of the current issues that are not done and fewer than 10;
  otherwise the storage is left as it is and the stored baseline is used. If the
  storage read throws, the baseline counts as absent and is regenerated whatever its
  entry count. A regeneration whose write throws ends in a failure reply, after the
  deletion if there was one. A baseline of 20 entries against 23 current issues that
  are not done is not stale.
\<close>

theorem baseline_repair:
  assumes "truthy (payload_boardId p)"
    and "getActiveSprint e (orEmpty (payload_boardId p)) = Inr (Some sprint)"
    and "getSprintIssues e (sprint_id sprint) = Inr allIssues"
    and "st (baselineKey (sprint_id sprint)) = Some (StoredBaseline b)"
  shows "getBurndownData e st p =
     (if storageGetFails e then regenerated e st p sprint allIssues
      else if staleBaseline (length (baseline_issues b)) (length (filter isActiveIssue allIssues))
      then regenerated e
             (if storageDeleteFails e then st else st(baselineKey (sprint_id sprint) := None))
             p sprint allIssues
      else (Inr (Success (burndownFrom e p sprint allIssues b)), st))
     \<and> \<not> staleBaseline 20 23"
proof
  show "getBurndownData e st p =
     (if storageGetFails e then regenerated e st p sprint allIssues
      else if staleBaseline (length (baseline_issues b)) (length (filter isActiveIssue allIssues))
      then regenerated e
             (if storageDeleteFails e then st else st(baselineKey (sprint_id sprint) := None))
             p sprint allIssues
      else (Inr (Success (burndownFrom e p sprint allIssues b)), st))"
    using assms(1-3)
    by (simp add: getBurndownData_def getBurndownData_try_def catchAsFailure_def
        getOrCreateBaseline_cases [of st "sprint_id sprint" b, OF assms(4)]
        saveSprintBaseline_cases regenerated_def
        baselineLooksCorrupted_stale)
  show "\<not> staleBaseline 20 23"
    by (simp add: staleBaseline_def)
qed

lemma example_active: "filter isActiveIssue exampleIssues = exampleIssues"
  by (simp add: exampleIssues_def isActiveIssue_def doneStatuses_def exampleParent_def
      exampleSub1_def exampleSub2_def exampleTask_def exampleIssue_fields orEmpty_def
      toLowerCase_def toLowerChar_def Let_def)

lemma exampleStale_length: "length (baseline_issues exampleStaleBaseline) = 1"
  by (simp add: exampleStaleBaseline_def newBaseline_def Let_def isActiveIssue_def
      doneStatuses_def exampleTask_def exampleIssue_fields orEmpty_def toLowerCase_def
      toLowerChar_def)

lemma exampleTask_active: "isActiveIssue exampleTask"
  by (simp add: isActiveIssue_def doneStatuses_def exampleTask_def exampleIssue_fields
      orEmpty_def toLowerCase_def toLowerChar_def Let_def)

lemma exampleEnvNoWrite_fields:
  "storageGetFails exampleEnvNoWrite = False"
  "storageSetFails exampleEnvNoWrite = True"
  "storageDeleteFails exampleEnvNoWrite = False"
  "getActiveSprint exampleEnvNoWrite ''1'' = Inr (Some exampleSprint)"
  "getSprintIssues exampleEnvNoWrite s = Inr exampleIssues"
  by (simp_all add: exampleEnvNoWrite_def exampleEnv_def)

lemma exampleEnvNoRead_fields:
  "now exampleEnvNoRead = 1704362400000"
  "storageGetFails exampleEnvNoRead = True"
  "storageSetFails exampleEnvNoRead = False"
  "getActiveSprint exampleEnvNoRead ''1'' = Inr (Some exampleSprint)"
  "getSprintIssues exampleEnvNoRead s = Inr exampleIssues"
  by (simp_all add: exampleEnvNoRead_def exampleEnv_def)

lemma exampleEnvOneTaskNoRead_fields:
  "now exampleEnvOneTaskNoRead = 1704362400000"
  "storageGetFails exampleEnvOneTaskNoRead = True"
  "storageSetFails exampleEnvOneTaskNoRead = False"
  "getActiveSprint exampleEnvOneTaskNoRead ''1'' = Inr (Some exampleSprint)"
  "getSprintIssues exampleEnvOneTaskNoRead s = Inr [exampleTask]"
  by (simp_all add: exampleEnvOneTaskNoRead_def exampleEnvOneTask_def exampleEnv_def)

lemma example_stale:
  "staleBaseline (length (baseline_issues exampleStaleBaseline))
     (length (filter isActiveIssue exampleIssues))"
  "\<not> staleBaseline (length (baseline_issues (newBaseline exampleEnv ''42'' exampleIssues)))
        (length (filter isActiveIssue exampleIssues))"
proof -
  have n4: "length exampleIssues = 4" by (simp add: exampleIssues_def)
  show "staleBaseline (length (baseline_issues exampleStaleBaseline))
     (length (filter isActiveIssue exampleIssues))"
    by (simp add: example_active exampleStale_length n4 staleBaseline_def)
  show "\<not> staleBaseline (length (baseline_issues (newBaseline exampleEnv ''42'' exampleIssues)))
        (length (filter isActiveIssue exampleIssues))"
    by (simp add: newBaseline_def Let_def example_active n4 staleBaseline_def)
qed

theorem baseline_repair_witness:
  "truthy (payload_boardId examplePayload)
   \<and> getActiveSprint exampleEnv (orEmpty (payload_boardId examplePayload)) = Inr (Some exampleSprint)
   \<and> getSprintIssues exampleEnv (sprint_id exampleSprint) = Inr exampleIssues
   \<and> getActiveSprint exampleEnvNoWrite (orEmpty (payload_boardId examplePayload))
       = Inr (Some exampleSprint)
   \<and> getSprintIssues exampleEnvNoWrite (sprint_id exampleSprint) = Inr exampleIssues
   \<and> staleBaseline (length (baseline_issues exampleStaleBaseline))
        (length (filter isActiveIssue exampleIssues))
   \<and> getBurndownData exampleEnv [baselineKey ''42'' \<mapsto> StoredBaseline exampleStaleBaseline]
        examplePayload
       = (Inr (Success exampleBurndown),
          [baselineKey ''42'' \<mapsto> StoredBaseline (newBaseline exampleEnv ''42'' exampleIssues)])
   \<and> getBurndownData exampleEnvNoWrite
        [baselineKey ''42'' \<mapsto> StoredBaseline exampleStaleBaseline] examplePayload
       = (Inr (Failure ''storage unavailable''), Map.empty)
   \<and> \<not> staleBaseline (length (baseline_issues (newBaseline exampleEnv ''42'' exampleIssues)))
        (length (filter isActiveIssue exampleIssues))
   \<and> getBurndownData exampleEnv
        [baselineKey ''42'' \<mapsto> StoredBaseline (newBaseline exampleEnv ''42'' exampleIssues)]
        examplePayload
       = (Inr (Success exampleBurndown),
          [baselineKey ''42'' \<mapsto> StoredBaseline (newBaseline exampleEnv ''42'' exampleIssues)])"
proof -
  have b: "truthy (payload_boardId examplePayload)"
    by (simp add: examplePayload_fields truthy_def)
  have s: "getActiveSprint exampleEnv (orEmpty (payload_boardId examplePayload))
           = Inr (Some exampleSprint)"
    by (simp add: examplePayload_fields orEmpty_def exampleEnv_fields)
  have i: "getSprintIssues exampleEnv (sprint_id exampleSprint) = Inr exampleIssues"
    by (simp add: exampleEnv_fields)
  have s': "getActiveSprint exampleEnvNoWrite (orEmpty (payload_boardId examplePayload))
           = Inr (Some exampleSprint)"
    by (simp add: examplePayload_fields orEmpty_def exampleEnvNoWrite_fields)
  have i': "getSprintIssues exampleEnvNoWrite (sprint_id exampleSprint) = Inr exampleIssues"
    by (simp add: exampleEnvNoWrite_fields)
  have k1: "[baselineKey ''42'' \<mapsto> StoredBaseline exampleStaleBaseline]
              (baselineKey (sprint_id exampleSprint)) = Some (StoredBaseline exampleStaleBaseline)"
    by (simp add: exampleSprint_fields)
  have k2: "[baselineKey ''42'' \<mapsto> StoredBaseline (newBaseline exampleEnv ''42'' exampleIssues)]
              (baselineKey (sprint_id exampleSprint))
            = Some (StoredBaseline (newBaseline exampleEnv ''42'' exampleIssues))"
    by (simp add: exampleSprint_fields)
  from baseline_repair
         [of examplePayload exampleEnv exampleSprint exampleIssues
             "[baselineKey ''42'' \<mapsto> StoredBaseline exampleStaleBaseline]" exampleStaleBaseline,
          OF b s i k1]
  have r1: "getBurndownData exampleEnv
              [baselineKey ''42'' \<mapsto> StoredBaseline exampleStaleBaseline] examplePayload
       = (Inr (Success exampleBurndown),
          [baselineKey ''42'' \<mapsto> StoredBaseline (newBaseline exampleEnv ''42'' exampleIssues)])"
    by (simp add: example_stale regenerated_def exampleEnv_fields exampleSprint_fields
        exampleBurndown_def)
  from baseline_repair
         [of examplePayload exampleEnvNoWrite exampleSprint exampleIssues
             "[baselineKey ''42'' \<mapsto> StoredBaseline exampleStaleBaseline]" exampleStaleBaseline,
          OF b s' i' k1]
  have r2: "getBurndownData exampleEnvNoWrite
              [baselineKey ''42'' \<mapsto> StoredBaseline exampleStaleBaseline] examplePayload
       = (Inr (Failure ''storage unavailable''), Map.empty)"
    by (simp add: example_stale regenerated_def exampleEnvNoWrite_fields exampleSprint_fields)
  from baseline_repair
         [of examplePayload exampleEnv exampleSprint exampleIssues
             "[baselineKey ''42'' \<mapsto> StoredBaseline (newBaseline exampleEnv ''42'' exampleIssues)]"
             "newBaseline exampleEnv ''42'' exampleIssues",
          OF b s i k2]
  have r3: "getBurndownData exampleEnv
        [baselineKey ''42'' \<mapsto> StoredBaseline (newBaseline exampleEnv ''42'' exampleIssues)]
        examplePayload
       = (Inr (Success exampleBurndown),
          [baselineKey ''42'' \<mapsto> StoredBaseline (newBaseline exampleEnv ''42'' exampleIssues)])"
    by (simp add: example_stale exampleEnv_fields exampleBurndown_def)
  show ?thesis
    using b s i s' i' example_stale r1 r2 r3 by simp
qed

lemma exampleOld_entries:
  "baseline_issues exampleOldBaseline
     = [baselineEntry (exampleTask\<lparr> timeoriginalestimate := Some 7200 \<rparr>)]"
  by (simp add: exampleOldBaseline_def newBaseline_def Let_def isActiveIssue_def doneStatuses_def
      exampleTask_def exampleIssue_def orEmpty_def toLowerCase_def toLowerChar_def)

lemma exampleOld_total: "baselineTotal (baseline_issues exampleOldBaseline) = 2"
  by (simp add: exampleOld_entries baselineTotal_def baselineEntry_def secondsToHours_def
      Math_round_def)

lemma exampleOld_healthy:
  "\<not> staleBaseline (length (baseline_issues exampleOldBaseline))
        (length (filter isActiveIssue [exampleTask]))"
  by (simp add: exampleOld_entries staleBaseline_def)

text \<open>
  C4 as stated fails when the storage read throws: a baseline of one entry against one
  current issue is not stale, and yet it is replaced by a baseline of the current
  issues, whose total is 5h where the stored one said 2h.
\<close>

theorem baseline_repair_counterexample:
  "\<not> staleBaseline (length (baseline_issues exampleOldBaseline))
        (length (filter isActiveIssue [exampleTask]))
   \<and> getBurndownData exampleEnvOneTaskNoRead
        [baselineKey ''42'' \<mapsto> StoredBaseline exampleOldBaseline] examplePayload
       = (Inr (Success (burndownFrom exampleEnvOneTaskNoRead examplePayload exampleSprint
                          [exampleTask]
                          (newBaseline exampleEnvOneTaskNoRead ''42'' [exampleTask]))),
          [baselineKey ''42''
             \<mapsto> StoredBaseline (newBaseline exampleEnvOneTaskNoRead ''42'' [exampleTask])])
   \<and> baselineTotal (baseline_issues exampleOldBaseline) = 2
   \<and> baselineTotal (baseline_issues (newBaseline exampleEnvOneTaskNoRead ''42'' [exampleTask]))
       = 5"
proof -
  have run: "getBurndownData exampleEnvOneTaskNoRead
        [baselineKey ''42'' \<mapsto> StoredBaseline exampleOldBaseline] examplePayload
       = (Inr (Success (burndownFrom exampleEnvOneTaskNoRead examplePayload exampleSprint
                          [exampleTask]
                          (newBaseline exampleEnvOneTaskNoRead ''42'' [exampleTask]))),
          [baselineKey ''42''
             \<mapsto> StoredBaseline (newBaseline exampleEnvOneTaskNoRead ''42'' [exampleTask])])"
    by (simp add: getBurndownData_def getBurndownData_try_def catchAsFailure_def
        getOrCreateBaseline_read_failure exampleEnvOneTaskNoRead_fields exampleSprint_fields
        examplePayload_fields truthy_def orEmpty_def)
  have new: "baselineTotal
               (baseline_issues (newBaseline exampleEnvOneTaskNoRead ''42'' [exampleTask])) = 5"
    by (simp add: newBaseline_def Let_def exampleTask_active baselineTotal_def baselineEntry_def
        example_hours)
  show ?thesis
    using exampleOld_healthy run exampleOld_total new by simp
qed

subsection \<open>Baseline stability\<close>

lemma baselineKey_inj: "baselineKey a = baselineKey b \<longleftrightarrow> a = b"
  by (simp add: baselineKey_def)

lemma configKey_not_baselineKey:
  "configKey g \<noteq> baselineKey s" "baselineKey s \<noteq> configKey g"
  by (simp_all add: configKey_def baselineKey_def)

lemma getOrCreateBaseline_keeps:
  assumes "st (baselineKey sid) = Some v"
    and "sprintId = sid \<longrightarrow>
           \<not> storageGetFails e
           \<and> (\<forall>b. v = StoredBaseline b \<longrightarrow> \<not> baselineLooksCorrupted b allIssues)"
  shows "snd (getOrCreateBaseline e st sprintId allIssues) (baselineKey sid) = Some v"
proof (cases "sprintId = sid")
  case True
  with assms show ?thesis
    by (cases v)
       (simp_all add: getOrCreateBaseline_def getSprintBaseline_def storage_get_def
          saveSprintBaseline_def storage_set_def Let_def)
next
  case False
  with assms(1) show ?thesis
    by (auto simp: getOrCreateBaseline_def getSprintBaseline_def storage_get_def
        saveSprintBaseline_def storage_set_def deleteSprintBaseline_def storage_delete_def
        Let_def baselineKey_inj split: option.splits stored.splits)
qed

lemma getOrCreateBaseline_v1_keeps:
  assumes "st (baselineKey sid) = Some v" and "sprintId = sid \<longrightarrow> \<not> storageGetFails e"
  shows "snd (getOrCreateBaseline_v1 e st sprintId allIssues) (baselineKey sid) = Some v"
  using assms
  by (cases "sprintId = sid")
     (auto simp: getOrCreateBaseline_v1_def getSprintBaseline_def storage_get_def
        saveSprintBaseline_v1_def storage_set_def Let_def baselineKey_inj
        split: option.splits)

text \<open>
  C5 (as amended). A value stored as the baseline of a sprint is still stored,
  unchanged, after \<open>getConfig\<close>, after \<open>saveConfig\<close>, after \<open>getBurndownData\<close> unless the
  request meets the corruption-repair condition or a read failure for it, and after the
  first generation's \<open>getScopeChanges\<close> (whose get-or-create opening is also that of the
  first generation's \<open>getBurndownData\<close>) unless the request meets a read failure. The
  remaining resolvers of the second generation (\<open>getBoards\<close>, \<open>getSprintHealth\<close>,
  \<open>getAtRiskItems\<close>, \<open>getScopeChanges\<close>, \<open>getHighPriorityItems\<close>, \<open>getReleaseData\<close>) make no
  storage call at all, which their types show. Only \<open>deleteBaseline\<close> and \<open>resetBaseline\<close>
  are left out: they are the explicit reset operations.
\<close>

theorem baseline_stability:
  assumes "st (baselineKey sid) = Some v"
  shows "snd (getConfig e st gadget) (baselineKey sid) = Some v
       \<and> snd (saveConfig e st gadget cfg) (baselineKey sid) = Some v
       \<and> (\<not> repairCondition e p sid v \<and> \<not> readFailure e p sid \<longrightarrow>
            snd (getBurndownData e st p) (baselineKey sid) = Some v)
       \<and> (\<not> readFailure e p sid \<longrightarrow>
            getScopeChanges_v1_store e st p (baselineKey sid) = Some v)"
proof (intro conjI impI)
  from assms show "snd (getConfig e st gadget) (baselineKey sid) = Some v"
    by (simp add: getConfig_def storage_get_def split: option.splits)
  from assms show "snd (saveConfig e st gadget cfg) (baselineKey sid) = Some v"
    by (simp add: saveConfig_def catchAsFailure_def storage_set_def configKey_not_baselineKey)
next
  assume nf: "\<not> readFailure e p sid"
  show "getScopeChanges_v1_store e st p (baselineKey sid) = Some v"
  proof (cases "reachesBaseline e p sid")
    case True
    with nf have "\<not> storageGetFails e" by (simp add: readFailure_def)
    with assms show ?thesis
      by (simp add: getScopeChanges_v1_store_def getOrCreateBaseline_v1_keeps
          split: sum.splits option.splits)
  next
    case False
    then have "\<And>sprint allIssues.
        truthy (payload_boardId p) \<Longrightarrow>
        getActiveSprint e (orEmpty (payload_boardId p)) = Inr (Some sprint) \<Longrightarrow>
        getSprintIssues e (sprint_id sprint) = Inr allIssues \<Longrightarrow> sprint_id sprint \<noteq> sid"
      by (auto simp: reachesBaseline_def)
    with assms show ?thesis
      by (auto simp: getScopeChanges_v1_store_def getOrCreateBaseline_v1_keeps
          split: sum.splits option.splits)
  qed
next
  assume "\<not> repairCondition e p sid v \<and> \<not> readFailure e p sid"
  then have nr: "\<not> repairCondition e p sid v" and nf: "\<not> readFailure e p sid" by simp_all
  show "snd (getBurndownData e st p) (baselineKey sid) = Some v"
  proof (cases "truthy (payload_boardId p)")
    case False
    with assms show ?thesis
      by (simp add: getBurndownData_def getBurndownData_try_def catchAsFailure_def)
  next
    case True
    show ?thesis
    proof (cases "getActiveSprint e (orEmpty (payload_boardId p))")
      case (Inl err)
      with True assms show ?thesis
        by (simp add: getBurndownData_def getBurndownData_try_def catchAsFailure_def)
    next
      case (Inr found)
      show ?thesis
      proof (cases found)
        case None
        with Inr True assms show ?thesis
          by (simp add: getBurndownData_def getBurndownData_try_def catchAsFailure_def)
      next
        case (Some sprint)
        show ?thesis
        proof (cases "getSprintIssues e (sprint_id sprint)")
          case (Inl err)
          with Some Inr True assms show ?thesis
            by (simp add: getBurndownData_def getBurndownData_try_def catchAsFailure_def)
        next
          case issues: (Inr allIssues)
          from nr nf True Inr Some issues
          have "sprint_id sprint = sid \<longrightarrow>
                  \<not> storageGetFails e
                  \<and> (\<forall>b. v = StoredBaseline b \<longrightarrow> \<not> baselineLooksCorrupted b allIssues)"
            by (auto simp: repairCondition_def readFailure_def reachesBaseline_def)
          from getOrCreateBaseline_keeps
                 [of st sid v "sprint_id sprint" e allIssues, OF assms(1) this]
          have "snd (getOrCreateBaseline e st (sprint_id sprint) allIssues) (baselineKey sid)
                = Some v" .
          with issues Some Inr True show ?thesis
            by (auto simp: getBurndownData_def getBurndownData_try_def catchAsFailure_def
                split: prod.splits sum.splits)
        qed
      qed
    qed
  qed
qed

theorem baseline_stability_witness:
  "[baselineKey ''42'' \<mapsto> StoredBaseline exampleStartBaseline] (baselineKey ''42'')
     = Some (StoredBaseline exampleStartBaseline)
   \<and> \<not> repairCondition exampleEnv examplePayload ''42'' (StoredBaseline exampleStartBaseline)
   \<and> \<not> readFailure exampleEnv examplePayload ''42''
   \<and> reachesBaseline exampleEnv examplePayload ''42''
   \<and> snd (getBurndownData exampleEnv
            [baselineKey ''42'' \<mapsto> StoredBaseline exampleStartBaseline] examplePayload)
        (baselineKey ''42'')
       = Some (StoredBaseline exampleStartBaseline)
   \<and> getScopeChanges_v1_store exampleEnv
        [baselineKey ''42'' \<mapsto> StoredBaseline exampleStartBaseline] examplePayload
        (baselineKey ''42'')
       = Some (StoredBaseline exampleStartBaseline)"
proof -
  let ?b = "exampleStartBaseline"
  have k: "[baselineKey ''42'' \<mapsto> StoredBaseline ?b] (baselineKey ''42'')
           = Some (StoredBaseline ?b)"
    by simp
  have n4: "length exampleIssues = 4" by (simp add: exampleIssues_def)
  have "\<not> baselineLooksCorrupted ?b exampleIssues"
    by (simp add: baselineLooksCorrupted_stale exampleStartBaseline_def newBaseline_def Let_def
        example_active n4 staleBaseline_def)
  then have nr: "\<not> repairCondition exampleEnv examplePayload ''42'' (StoredBaseline ?b)"
    by (simp add: repairCondition_def examplePayload_fields orEmpty_def exampleEnv_fields
        exampleSprint_fields)
  have nf: "\<not> readFailure exampleEnv examplePayload ''42''"
    by (simp add: readFailure_def exampleEnv_fields)
  have rb: "reachesBaseline exampleEnv examplePayload ''42''"
    by (simp add: reachesBaseline_def examplePayload_fields orEmpty_def truthy_def
        exampleEnv_fields exampleSprint_fields)
  from baseline_stability
         [of "[baselineKey ''42'' \<mapsto> StoredBaseline ?b]" "''42''" "StoredBaseline ?b"
             exampleEnv None defaultConfig examplePayload, OF k] nr nf rb k
  show ?thesis by simp
qed

text \<open>
  C5 as stated fails when the storage read throws: the baseline taken at the start of
  the sprint does not meet the repair condition, and yet \<open>getBurndownData\<close> stores a new
  baseline over it; so does the first generation's \<open>getScopeChanges\<close>.
\<close>

theorem baseline_stability_counterexample:
  "\<not> repairCondition exampleEnvNoRead examplePayload ''42'' (StoredBaseline exampleStartBaseline)
   \<and> snd (getBurndownData exampleEnvNoRead
            [baselineKey ''42'' \<mapsto> StoredBaseline exampleStartBaseline] examplePayload)
        (baselineKey ''42'')
       = Some (StoredBaseline (newBaseline exampleEnvNoRead ''42'' exampleIssues))
   \<and> newBaseline exampleEnvNoRead ''42'' exampleIssues \<noteq> exampleStartBaseline
   \<and> getScopeChanges_v1_store exampleEnvNoRead
        [baselineKey ''42'' \<mapsto> StoredBaseline exampleStartBaseline] examplePayload
        (baselineKey ''42'')
       \<noteq> Some (StoredBaseline exampleStartBaseline)"
proof -
  let ?b = "exampleStartBaseline"
  have n4: "length exampleIssues = 4" by (simp add: exampleIssues_def)
  have "\<not> baselineLooksCorrupted ?b exampleIssues"
    by (simp add: baselineLooksCorrupted_stale exampleStartBaseline_def newBaseline_def Let_def
        example_active n4 staleBaseline_def)
  then have nr: "\<not> repairCondition exampleEnvNoRead examplePayload ''42'' (StoredBaseline ?b)"
    by (simp add: repairCondition_def examplePayload_fields orEmpty_def exampleEnvNoRead_fields
        exampleSprint_fields)
  have run: "snd (getBurndownData exampleEnvNoRead
            [baselineKey ''42'' \<mapsto> StoredBaseline ?b] examplePayload) (baselineKey ''42'')
       = Some (StoredBaseline (newBaseline exampleEnvNoRead ''42'' exampleIssues))"
    by (simp add: getBurndownData_def getBurndownData_try_def catchAsFailure_def
        getOrCreateBaseline_read_failure exampleEnvNoRead_fields exampleSprint_fields
        examplePayload_fields truthy_def orEmpty_def)
  have "baseline_createdAt (newBaseline exampleEnvNoRead ''42'' exampleIssues)
        \<noteq> baseline_createdAt ?b"
    by (simp add: exampleStartBaseline_def newBaseline_def Let_def exampleEnvNoRead_fields)
  then have ne: "newBaseline exampleEnvNoRead ''42'' exampleIssues \<noteq> ?b" by auto
  have v1: "getScopeChanges_v1_store exampleEnvNoRead
        [baselineKey ''42'' \<mapsto> StoredBaseline ?b] examplePayload (baselineKey ''42'')
       \<noteq> Some (StoredBaseline ?b)"
    by (simp add: getScopeChanges_v1_store_def getOrCreateBaseline_v1_def getSprintBaseline_def
        storage_get_def saveSprintBaseline_v1_def storage_set_def Let_def
        exampleEnvNoRead_fields exampleSprint_fields examplePayload_fields truthy_def
        orEmpty_def exampleStartBaseline_def newBaseline_def)
  show ?thesis
    using nr run ne v1 by simp
qed

subsection \<open>Floating-point numbers\<close>

lemma pow2_powi: "pow2 k = 2 powi k"
  by (simp add: pow2_def power_int_def inverse_eq_divide power_one_over)

lemma pow2_pos: "0 < pow2 k"
  by (simp add: pow2_powi)

lemma pow2_diff: "pow2 (a - b) = pow2 a / pow2 b"
  by (simp add: pow2_powi power_int_diff)

lemma pow2_52: "pow2 52 = 2 ^ 52"
  by (simp add: pow2_def)

lemma exponentOf_le:
  assumes "0 < y"
  shows "pow2 (exponentOf y) \<le> y"
proof (cases "1 \<le> y")
  case True
  then have n: "0 < nat \<lfloor>y\<rfloor>" by simp
  have two: "1 < (2::nat)" by simp
  from floorlog_bounds [OF n two]
  have "2 ^ (floorlog 2 (nat \<lfloor>y\<rfloor>) - 1) \<le> nat \<lfloor>y\<rfloor>" by (rule conjunct1)
  then have "real (2 ^ (floorlog 2 (nat \<lfloor>y\<rfloor>) - 1)) \<le> real (nat \<lfloor>y\<rfloor>)"
    by (simp only: of_nat_le_iff)
  also have "\<dots> \<le> y" using True by simp
  finally have le: "(2::real) ^ (floorlog 2 (nat \<lfloor>y\<rfloor>) - 1) \<le> y" by simp
  have pos: "0 < floorlog 2 (nat \<lfloor>y\<rfloor>)"
    using n by (simp add: floorlog_def)
  have "exponentOf y = int (floorlog 2 (nat \<lfloor>y\<rfloor>) - 1)"
    using True pos by (simp add: exponentOf_def)
  then show ?thesis using le by (simp add: pow2_def)
next
  case False
  define m where "m = nat (\<lceil>1 / y\<rceil> - 1)"
  define k where "k = floorlog 2 m"
  from False assms have "1 < 1 / y" by simp
  then have "of_int 1 < 1 / y" by simp
  then have "1 < \<lceil>1 / y\<rceil>" by (simp only: less_ceiling_iff)
  then have c: "2 \<le> \<lceil>1 / y\<rceil>" by linarith
  then have "0 \<le> \<lceil>1 / y\<rceil> - 1" by linarith
  then have im: "int m = \<lceil>1 / y\<rceil> - 1" unfolding m_def by (rule nat_0_le)
  with c have "0 < int m" by linarith
  then have m: "0 < m" by (simp only: of_nat_0_less_iff)
  have two: "1 < (2::nat)" by simp
  from floorlog_bounds [OF m two] have "m < 2 ^ k" unfolding k_def by (rule conjunct2)
  then have "Suc m \<le> 2 ^ k" by (rule Suc_leI)
  then have "int (Suc m) \<le> int (2 ^ k)" by (simp only: of_nat_le_iff)
  moreover have "int (Suc m) = int m + 1" by simp
  ultimately have "\<lceil>1 / y\<rceil> \<le> int (2 ^ k)" using im by linarith
  then have "\<lceil>1 / y\<rceil> \<le> 2 ^ k" by simp
  then have "1 / y \<le> 2 ^ k" by (simp add: ceiling_le_iff)
  then have "1 / 2 ^ k \<le> y"
    using assms by (simp add: field_simps)
  moreover have "exponentOf y = - int k"
    using False by (simp add: exponentOf_def k_def m_def)
  ultimately show ?thesis by (auto simp: pow2_def)
qed

lemma floor_le_roundEven: "\<lfloor>q\<rfloor> \<le> roundEven q"
  by (simp add: roundEven_def Let_def)

lemma ulpOf_pos: "0 < ulpOf y"
  by (simp add: ulpOf_def pow2_pos)

lemma mantissa_pos:
  assumes "0 < y"
  shows "0 < of_int (roundEven (y / ulpOf y)) * ulpOf y"
proof -
  have "pow2 (exponentOf y) \<le> y" using assms by (rule exponentOf_le)
  then have "2 ^ 52 \<le> y / ulpOf y"
    using pow2_pos [of "exponentOf y"]
    by (simp add: ulpOf_def pow2_diff pow2_52 field_simps)
  then have "of_int 1 \<le> y / ulpOf y" by simp
  then have "1 \<le> \<lfloor>y / ulpOf y\<rfloor>" by (simp only: le_floor_iff)
  with floor_le_roundEven [of "y / ulpOf y"] have "0 < roundEven (y / ulpOf y)" by linarith
  then have "(0::real) < of_int (roundEven (y / ulpOf y))" by simp
  then show ?thesis using ulpOf_pos [of y] by (rule mult_pos_pos)
qed

lemma fl_pos: "0 < x \<Longrightarrow> 0 < fl x"
  using mantissa_pos [of x] by (simp add: fl_def)

lemma fl_neg: "x < 0 \<Longrightarrow> fl x < 0"
  using mantissa_pos [of "- x"] by (simp add: fl_def)

lemma fl_0: "fl 0 = 0"
  by (simp add: fl_def)


lemma fl_neg_iff: "fl x < 0 \<longleftrightarrow> x < 0"
  using fl_pos [of x] fl_neg [of x] fl_0 by (cases "x = 0"; cases "0 < x") auto


text \<open>
  The significand of \<open>fl\<close> has 53 bits: a positive number is at least \<open>2 ^ 52\<close> and less
  than \<open>2 ^ 53\<close> units in the last place.
\<close>

lemma pow2_neg_nat: "pow2 (- int n) = 1 / 2 ^ n"
  by (simp add: pow2_powi power_int_minus inverse_eq_divide)

lemma exponentOf_less:
  assumes "0 < y"
  shows "y < pow2 (exponentOf y + 1)"
proof (cases "1 \<le> y")
  case True
  then have n: "0 < nat \<lfloor>y\<rfloor>" by simp
  have two: "1 < (2::nat)" by simp
  from floorlog_bounds [OF n two]
  have "nat \<lfloor>y\<rfloor> < 2 ^ floorlog 2 (nat \<lfloor>y\<rfloor>)" by (rule conjunct2)
  then have "Suc (nat \<lfloor>y\<rfloor>) \<le> 2 ^ floorlog 2 (nat \<lfloor>y\<rfloor>)" by (rule Suc_leI)
  then have "real (Suc (nat \<lfloor>y\<rfloor>)) \<le> real (2 ^ floorlog 2 (nat \<lfloor>y\<rfloor>))"
    by (simp only: of_nat_le_iff)
  moreover have "y < real (Suc (nat \<lfloor>y\<rfloor>))" using True by simp linarith
  ultimately have "y < (2::real) ^ floorlog 2 (nat \<lfloor>y\<rfloor>)" by simp
  moreover have "exponentOf y + 1 = int (floorlog 2 (nat \<lfloor>y\<rfloor>))"
    using True by (simp add: exponentOf_def)
  ultimately show ?thesis by (simp add: pow2_def)
next
  case False
  define m where "m = nat (\<lceil>1 / y\<rceil> - 1)"
  define k where "k = floorlog 2 m"
  from False assms have "1 < 1 / y" by simp
  then have "of_int 1 < 1 / y" by simp
  then have "1 < \<lceil>1 / y\<rceil>" by (simp only: less_ceiling_iff)
  then have c: "2 \<le> \<lceil>1 / y\<rceil>" by linarith
  then have "0 \<le> \<lceil>1 / y\<rceil> - 1" by linarith
  then have im: "int m = \<lceil>1 / y\<rceil> - 1" unfolding m_def by (rule nat_0_le)
  with c have "0 < int m" by linarith
  then have m: "0 < m" by (simp only: of_nat_0_less_iff)
  have two: "1 < (2::nat)" by simp
  from floorlog_bounds [OF m two] have "2 ^ (k - 1) \<le> m" unfolding k_def by (rule conjunct1)
  then have "real (2 ^ (k - 1)) \<le> real m" by (simp only: of_nat_le_iff)
  moreover have "real m = of_int (\<lceil>1 / y\<rceil> - 1)" using im by (metis of_int_of_nat_eq)
  moreover have "of_int (\<lceil>1 / y\<rceil> - 1) < 1 / y" by simp linarith
  ultimately have "(2::real) ^ (k - 1) < 1 / y" by simp
  then have lt: "y < 1 / 2 ^ (k - 1)" using assms by (simp add: field_simps)
  have kpos: "0 < k" using m by (simp add: k_def floorlog_def)
  have "exponentOf y + 1 = - int (k - 1)"
    using False kpos by (simp add: exponentOf_def k_def m_def)
  then show ?thesis using lt by (simp only: pow2_neg_nat)
qed

lemma significand_range:
  assumes "0 < y"
  shows "2 ^ 52 \<le> y / ulpOf y \<and> y / ulpOf y < 2 ^ 53"
proof -
  have u: "ulpOf y = pow2 (exponentOf y) / 2 ^ 52"
    by (simp add: ulpOf_def pow2_diff pow2_52)
  have "pow2 (exponentOf y + 1) = 2 * pow2 (exponentOf y)"
    by (simp add: pow2_powi power_int_add)
  with exponentOf_le [OF assms] exponentOf_less [OF assms] pow2_pos [of "exponentOf y"]
  show ?thesis by (simp add: u field_simps)
qed

lemmas fl_eval =
  fl_def ulpOf_def pow2_def exponentOf_def compute_floorlog roundEven_def Math_round_def Let_def

text \<open>
  Ties go to the even significand: \<open>2 ^ 53 + 1\<close> rounds down and \<open>2 ^ 53 + 3\<close> rounds up;
  the double \<open>0.1\<close> is \<open>3602879701896397 / 2 ^ 55\<close>.
\<close>

lemma roundEven_ties:
  "roundEven (5 / 2) = 2" "roundEven (7 / 2) = 4" "roundEven (- 5 / 2) = - 2"
  by (simp_all add: roundEven_def Let_def)

lemma fl_examples:
  "fl 9007199254740993 = 9007199254740992"
  "fl 9007199254740995 = 9007199254740996"
  "fl (1 / 10) = 3602879701896397 / 36028797018963968"
  "fl (- (1 / 10)) = - (3602879701896397 / 36028797018963968)"
  by (simp_all add: fl_eval)


text \<open>
  The progress of a release with 23 of 40 issues done: the quotient times 100 is the
  double just below 57.5, so \<open>Math.round\<close> gives 57.
\<close>

lemma progress_23_of_40:
  "release_progress (finishRelease (r\<lparr> release_doneIssues := 23, release_totalIssues := 40 \<rparr>))
     = 57"
  by (simp add: finishRelease_def fl_eval)

subsection \<open>Health classification\<close>






subsection \<open>Replies and failures\<close>












subsection \<open>Scope totals\<close>














subsection \<open>Scope conservation\<close>





















lemma exampleEnvNow_fields:
  "now exampleEnvNow = 1704362400000"
  "storageGetFails exampleEnvNow = False"
  "getActiveSprint exampleEnvNow ''1'' = Inr (Some exampleSprint)"
  "getSprintIssues exampleEnvNow s = Inr exampleIssuesNow"
  "getIssueChangelog exampleEnvNow k = []"
  "getRemovedFromSprintIssues exampleEnvNow s n = [exampleLeaving]"
  by (simp_all add: exampleEnvNow_def exampleEnv_def)


lemma exampleScope_fields:
  "key exampleLeaving = ''P-8''" "key exampleJoined = ''P-9''"
  "created exampleLeaving = 1703000000000" "created exampleJoined = 1704190000000"
  "created exampleParent = 1703000000000" "created exampleSub1 = 1703000000000"
  "created exampleSub2 = 1703000000000" "created exampleTask = 1703000000000"
  "secondsToHours (timeoriginalestimate exampleLeaving) = 4"
  "secondsToHours (timeoriginalestimate exampleJoined) = 2"
  by (simp_all add: exampleLeaving_def exampleJoined_def exampleParent_def exampleSub1_def
      exampleSub2_def exampleTask_def exampleIssue_fields secondsToHours_def Math_round_def)



lemma exampleNow_entryDates:
  "sprintEntryDate exampleEnvNow exampleSprint exampleIssuesNow exampleParent = None"
  "sprintEntryDate exampleEnvNow exampleSprint exampleIssuesNow exampleSub1 = None"
  "sprintEntryDate exampleEnvNow exampleSprint exampleIssuesNow exampleSub2 = None"
  "sprintEntryDate exampleEnvNow exampleSprint exampleIssuesNow exampleTask = None"
  "sprintEntryDate exampleEnvNow exampleSprint exampleIssuesNow exampleJoined
     = Some 1704153600000"
  by (simp_all add: sprintEntryDate_def issueAddedDate_def getAllChangelogs_def
      analyzeSprintChangelog_def setHoursZero_def msPerDay_def exampleSprint_fields
      exampleIssuesNow_def exampleScope_fields example_keys exampleEnvNow_fields Let_def)








end
